theory Spec2Isabelle
  imports Complex_Main
begin

section \<open>JavaScript strings\<close>

text \<open>
  A JavaScript string is a sequence of UTF-16 code units. The development covers the
  strings whose code units are below 256, one \<^typ>\<open>char\<close> per code unit, so that
  \<open>length\<close> is the \<open>.length\<close> of the source and \<open>take n\<close> is \<open>substring(0, n)\<close>.
  In that range the white space and line terminators removed by
  \<open>String.prototype.trim\<close> are TAB, LF, VT, FF, CR, SPACE and NBSP.
\<close>

definition js_whitespace :: "char \<Rightarrow> bool" where
  "js_whitespace c =
     (c \<in> set [CHR 0x09, CHR 0x0A, CHR 0x0B, CHR 0x0C, CHR 0x0D, CHR 0x20, CHR 0xA0])"

definition trim :: "string \<Rightarrow> string" where
  "trim s = rev (dropWhile js_whitespace (rev (dropWhile js_whitespace s)))"

text \<open>\<open>xs.join(sep)\<close> on an array of strings.\<close>

fun join :: "string \<Rightarrow> string list \<Rightarrow> string" where
  "join sep [] = []"
| "join sep [x] = x"
| "join sep (x # y # ys) = x @ sep @ join sep (y # ys)"

text \<open>\<open>s.startsWith(p)\<close> and \<open>s.replace(p, r)\<close> with a string pattern: only the
  first occurrence is replaced.\<close>

fun starts_with :: "string \<Rightarrow> string \<Rightarrow> bool" where
  "starts_with [] s = True"
| "starts_with (p # ps) [] = False"
| "starts_with (p # ps) (c # cs) = (p = c \<and> starts_with ps cs)"

fun replace :: "string \<Rightarrow> string \<Rightarrow> string \<Rightarrow> string" where
  "replace pat rep [] = (if pat = [] then rep else [])"
| "replace pat rep (c # cs) =
     (if starts_with pat (c # cs) then rep @ drop (length pat) (c # cs)
      else c # replace pat rep cs)"

text \<open>\<open>s.split(' ')\<close>: the pieces between single spaces, empty pieces included.\<close>

fun split_space :: "string \<Rightarrow> string list" where
  "split_space [] = [[]]"
| "split_space (c # cs) =
     (if c = CHR '' '' then [] # split_space cs
      else (case split_space cs of [] \<Rightarrow> [[c]] | w # ws \<Rightarrow> (c # w) # ws))"

text \<open>Truthiness of a value that is a string, \<open>undefined\<close> or \<open>null\<close>
  (\<open>None\<close>): the empty string is falsy as well.\<close>

fun truthy :: "string option \<Rightarrow> bool" where
  "truthy None = False"
| "truthy (Some s) = (s \<noteq> [])"

section \<open>Data model\<close>

subsection \<open>Plain objects built by the socket controller\<close>

record attachment =
  filename :: string
  savedAs :: string
  mimeType :: string
  size :: nat
  url :: string
  textExcerpt :: "string option"

datatype role = User | Assistant | System

text \<open>The \<open>metadata\<close> object literal of a message: the success path writes
  \<open>model\<close> and \<open>usage\<close>, the failure path \<open>error\<close> and \<open>errorType\<close>, the user
  message has none.\<close>

record metadata_literal =
  lit_model :: "string option"
  lit_usage :: "nat option"
  lit_error :: "bool option"
  lit_errorType :: "string option"

record message_literal =
  lit_role :: role
  lit_content :: string
  lit_attachments :: "attachment list"
  lit_timestamp :: nat
  lit_metadata :: "metadata_literal option"

subsection \<open>The Chat model (Mongoose schema)\<close>

record tokens =
  prompt :: nat
  completion :: nat
  total :: nat

record metadata =
  model :: string
  tokens :: tokens
  processingTime :: nat
  error :: "string option"

record message =
  role :: role
  content :: string
  attachments :: "attachment list"
  timestamp :: nat
  metadata :: metadata

record settings =
  settings_model :: string
  temperature :: rat
  maxTokens :: nat
  systemPrompt :: string

record statistics =
  messageCount :: nat
  totalTokens :: nat
  lastActivity :: nat

text \<open>A Chat document. \<open>messages_modified\<close> is Mongoose's change tracking of the
  \<open>messages\<close> path, read by the pre-save hook through \<open>isModified("messages")\<close>.\<close>

record chat =
  chat_id :: string
  userId :: string
  title :: string
  chat_settings :: settings
  messages :: "message list"
  chat_statistics :: statistics
  messages_modified :: bool

text \<open>
  Pushing an object literal onto \<open>chat.messages\<close> casts it to \<open>messageSchema\<close>:
  the schema's paths are kept (with their defaults where the literal has none), a key
  the schema does not declare (\<open>usage\<close>, \<open>errorType\<close>) has no path to be stored
  under, and \<open>error: true\<close> is cast to the schema's String type.
\<close>

definition cast_metadata :: "metadata_literal option \<Rightarrow> metadata" where
  "cast_metadata l =
     \<lparr> model = (case l of None \<Rightarrow> ''deepseek-r1''
                | Some m \<Rightarrow> (case lit_model m of None \<Rightarrow> ''deepseek-r1'' | Some x \<Rightarrow> x)),
       tokens = \<lparr> prompt = 0, completion = 0, total = 0 \<rparr>,
       processingTime = 0,
       error = (case l of None \<Rightarrow> None
                | Some m \<Rightarrow> (case lit_error m of None \<Rightarrow> None
                    | Some b \<Rightarrow> Some (if b then ''true'' else ''false''))) \<rparr>"

definition cast_message :: "message_literal \<Rightarrow> message" where
  "cast_message l =
     \<lparr> role = lit_role l, content = lit_content l, attachments = lit_attachments l,
       timestamp = lit_timestamp l, metadata = cast_metadata (lit_metadata l) \<rparr>"

definition push_message :: "chat \<Rightarrow> message_literal \<Rightarrow> chat" where
  "push_message c l = c\<lparr> messages := messages c @ [cast_message l], messages_modified := True \<rparr>"

text \<open>\<open>chatSchema.pre("save")\<close>: the statistics are recomputed from the entry list
  whenever the list was modified.\<close>

definition pre_save :: "nat \<Rightarrow> chat \<Rightarrow> chat" where
  "pre_save now c =
     (if messages_modified c
      then c\<lparr> chat_statistics :=
               \<lparr> messageCount = length (messages c),
                 totalTokens = foldl (\<lambda>t msg. t + total (tokens (metadata msg))) 0 (messages c),
                 lastActivity = now \<rparr> \<rparr>
      else c)"

section \<open>The socket controller\<close>

subsection \<open>Events, effects and the environment\<close>

record chat_summary =
  summary_id :: string
  summary_title :: string
  summary_messageCount :: nat
  summary_totalTokens :: nat

text \<open>The events the controller emits to the connection. \<open>ai_response\<close> is the
  terminal event of an exchange; its last field is the \<open>error\<close> key that only the
  failure path sets.\<close>

datatype event =
    ErrorEvent string "string option"
  | Connected string string string
  | MessageReceived string message_literal
  | AiTyping string bool
  | AiResponse string message_literal chat_summary "string option"

record ai_request =
  req_messages :: "(role \<times> string) list"
  req_model :: string
  req_temperature :: rat
  req_max_tokens :: nat
  req_timeout :: nat

text \<open>Every call that leaves the handler is logged in the order it is made:
  \<open>socket.emit\<close>, \<open>Chat.findOne\<close>, \<open>chat.save\<close> and \<open>axios.post\<close>.\<close>

datatype effect =
    Emit event
  | ChatFindOne string string
  | ChatSave string
  | AxiosPost ai_request

datatype save_outcome = Saved | SaveRejects string

datatype axios_error = TimeoutExceeded | NetworkError | BadStatus nat

record ai_data =
  choices :: "string list"
  data_model :: "string option"
  usage_total_tokens :: "nat option"

datatype upstream_outcome = AxiosRejects axios_error | AxiosResolves ai_data

text \<open>
  What the handler cannot decide by itself: the id Mongoose gives a new document, the
  clock (read on receipt and again once the upstream call has settled), whether a
  store call rejects (validation or the database) and how the upstream call ends.
\<close>

record env =
  new_id :: string
  now_received :: nat
  now_settled :: nat
  create_save :: save_outcome
  findOne_throws :: bool
  upstream :: upstream_outcome
  success_save :: save_outcome
  failure_save :: save_outcome

record state =
  trace :: "effect list"
  store :: "string \<rightharpoonup> chat"

record inbound =
  chatId :: string
  message_text :: "string option"
  inbound_attachments :: "attachment list"

definition emit :: "event \<Rightarrow> state \<Rightarrow> state" where
  "emit e s = s\<lparr> trace := trace s @ [Emit e] \<rparr>"

definition call :: "effect \<Rightarrow> state \<Rightarrow> state" where
  "call e s = s\<lparr> trace := trace s @ [e] \<rparr>"

text \<open>\<open>await chat.save()\<close>: a rejected save throws and stores nothing; otherwise the
  pre-save hook runs and the document replaces the stored one.\<close>

definition save :: "save_outcome \<Rightarrow> nat \<Rightarrow> chat \<Rightarrow> state \<Rightarrow> state \<times> (string + chat)" where
  "save outcome now c s =
     (let s' = call (ChatSave (chat_id c)) s in
      case outcome of
        SaveRejects m \<Rightarrow> (s', Inl m)
      | Saved \<Rightarrow>
          (let c' = (pre_save now c)\<lparr> messages_modified := False \<rparr>
           in (s'\<lparr> store := (store s')(chat_id c \<mapsto> c') \<rparr>, Inr c')))"

subsection \<open>Validation and conversation resolution\<close>

text \<open>\<open>(!message || !message.trim()) && attachments.length === 0\<close>\<close>

definition empty_message :: "inbound \<Rightarrow> bool" where
  "empty_message d =
     ((\<not> truthy (message_text d) \<or> \<not> truthy (map_option trim (message_text d)))
      \<and> length (inbound_attachments d) = 0)"

definition new_chat :: "string \<Rightarrow> string \<Rightarrow> nat \<Rightarrow> chat" where
  "new_chat cid uid now =
     \<lparr> chat_id = cid, userId = uid, title = ''New Chat'',
       chat_settings = \<lparr> settings_model = ''deepseek/deepseek-r1'', temperature = 7 / 10,
                          maxTokens = 2048,
                          systemPrompt = ''You are Venus AI, a helpful and intelligent assistant.'' \<rparr>,
       messages = [],
       chat_statistics = \<lparr> messageCount = 0, totalTokens = 0, lastActivity = now \<rparr>,
       messages_modified = True \<rparr>"

datatype resolution = Resolved chat | Returned | Thrown string

definition resolve_chat :: "env \<Rightarrow> string \<Rightarrow> string \<Rightarrow> state \<Rightarrow> state \<times> resolution" where
  "resolve_chat e uid cid s =
     (if cid = ''default''
      then (case save (create_save e) (now_received e) (new_chat (new_id e) uid (now_received e)) s of
              (s', Inl m) \<Rightarrow> (s', Thrown m)
            | (s', Inr c) \<Rightarrow> (s', Resolved c))
      else
        (let s' = call (ChatFindOne cid uid) s in
         if findOne_throws e then (emit (ErrorEvent ''Invalid chat ID'' None) s', Returned)
         else (case store s cid of
                 None \<Rightarrow> (emit (ErrorEvent ''Chat not found'' None) s', Returned)
               | Some c \<Rightarrow>
                   if userId c = uid then (s', Resolved c)
                   else (emit (ErrorEvent ''Chat not found'' None) s', Returned))))"

subsection \<open>The user entry\<close>

definition attachment_note :: "attachment \<Rightarrow> string" where
  "attachment_note a =
     (if truthy (textExcerpt a)
      then [CHR 0x0A] @ ''[Attachment: '' @ filename a @ '']'' @ [CHR 0x0A] @ the (textExcerpt a)
      else [CHR 0x0A] @ ''[Attachment: '' @ filename a @ '']'')"

definition attachmentNotes :: "attachment list \<Rightarrow> string" where
  "attachmentNotes as = join [CHR 0x0A] (map attachment_note as)"

definition fullContent :: "string option \<Rightarrow> attachment list \<Rightarrow> string" where
  "fullContent m as =
     trim (trim (case m of None \<Rightarrow> [] | Some t \<Rightarrow> t) @ attachmentNotes as)"

definition userMessage :: "nat \<Rightarrow> inbound \<Rightarrow> message_literal" where
  "userMessage now d =
     \<lparr> lit_role = User,
       lit_content = (let c = fullContent (message_text d) (inbound_attachments d)
                      in if c = [] then ''(no text, attachments only)'' else c),
       lit_attachments = inbound_attachments d,
       lit_timestamp = now,
       lit_metadata = None \<rparr>"

subsection \<open>The exchange\<close>

text \<open>The \<open>{role, content}\<close> pairs sent upstream; the system prompt is put in front
  when the conversation holds exactly one entry.\<close>

definition messagesForAI :: "chat \<Rightarrow> (role \<times> string) list" where
  "messagesForAI c =
     (let ms = map (\<lambda>msg. (role msg, content msg)) (messages c)
      in if length (messages c) = 1 then (System, systemPrompt (chat_settings c)) # ms else ms)"

definition ai_request_of :: "chat \<Rightarrow> ai_request" where
  "ai_request_of c =
     \<lparr> req_messages = messagesForAI c,
       req_model = settings_model (chat_settings c),
       req_temperature = temperature (chat_settings c),
       req_max_tokens = maxTokens (chat_settings c),
       req_timeout = 120000 \<rparr>"

definition summary_of :: "chat \<Rightarrow> chat_summary" where
  "summary_of c =
     \<lparr> summary_id = chat_id c, summary_title = title c,
       summary_messageCount = messageCount (chat_statistics c),
       summary_totalTokens = totalTokens (chat_statistics c) \<rparr>"

definition aiMessage :: "nat \<Rightarrow> string \<Rightarrow> ai_data \<Rightarrow> message_literal" where
  "aiMessage now reply d =
     \<lparr> lit_role = Assistant, lit_content = reply, lit_attachments = [], lit_timestamp = now,
       lit_metadata = Some \<lparr> lit_model = data_model d, lit_usage = usage_total_tokens d,
                             lit_error = None, lit_errorType = None \<rparr> \<rparr>"

definition errorMessage :: "nat \<Rightarrow> message_literal" where
  "errorMessage now =
     \<lparr> lit_role = Assistant,
       lit_content =
         ''I apologize, but I'' @ [CHR 0x27] @
         ''m currently unable to process your request. Please try again later.'',
       lit_attachments = [], lit_timestamp = now,
       lit_metadata = Some \<lparr> lit_model = None, lit_usage = None,
                             lit_error = Some True, lit_errorType = Some ''ai_service_error'' \<rparr> \<rparr>"

definition make_title :: "string \<Rightarrow> string" where
  "make_title firstMessage =
     (if length firstMessage > 50 then take 47 firstMessage @ ''...'' else firstMessage)"

text \<open>The statistics assignments of the success path.\<close>

definition count_success :: "nat \<Rightarrow> ai_data \<Rightarrow> chat \<Rightarrow> chat" where
  "count_success now d c =
     c\<lparr> chat_statistics :=
          \<lparr> messageCount = length (messages c),
            totalTokens = totalTokens (chat_statistics c)
                          + (case usage_total_tokens d of None \<Rightarrow> 0 | Some n \<Rightarrow> n),
            lastActivity = now \<rparr> \<rparr>"

text \<open>The title update of the success path; \<open>message.trim()\<close> throws a TypeError
  (\<open>None\<close>) when the inbound message carried no text at all.\<close>

definition update_title :: "string option \<Rightarrow> chat \<Rightarrow> chat option" where
  "update_title m c =
     (if length (messages c) = 2 \<and> title c = ''New Chat''
      then (case m of None \<Rightarrow> None | Some t \<Rightarrow> Some (c\<lparr> title := make_title (trim t) \<rparr>))
      else Some c)"

text \<open>
  The body of the inner \<open>try\<close>, from the upstream call on. It either completes
  (\<open>None\<close>) or throws, and then hands the document as it is in memory at that moment
  to the \<open>catch\<close>.
\<close>

definition ai_success :: "env \<Rightarrow> inbound \<Rightarrow> chat \<Rightarrow> state \<Rightarrow> state \<times> chat option" where
  "ai_success e d c s =
     (let s1 = call (AxiosPost (ai_request_of c)) s in
      case upstream e of
        AxiosRejects err \<Rightarrow> (s1, Some c)
      | AxiosResolves r \<Rightarrow>
          (let s2 = emit (AiTyping (chatId d) False) s1 in
           case choices r of
             [] \<Rightarrow> (s2, Some c)
           | reply # _ \<Rightarrow>
               (let m = aiMessage (now_settled e) reply r;
                    c1 = count_success (now_settled e) r (push_message c m)
                in case update_title (message_text d) c1 of
                     None \<Rightarrow> (s2, Some c1)
                   | Some c2 \<Rightarrow>
                       (case save (success_save e) (now_settled e) c2 s2 of
                          (s3, Inl err) \<Rightarrow> (s3, Some c2)
                        | (s3, Inr c3) \<Rightarrow>
                            (emit (AiResponse (chat_id c3) m (summary_of c3) None) s3, None)))))"

text \<open>The \<open>catch (aiError)\<close> block; a save that rejects here is thrown on to the
  outer \<open>catch\<close> (\<open>Some\<close> of its message).\<close>

definition ai_failure :: "env \<Rightarrow> inbound \<Rightarrow> chat \<Rightarrow> state \<Rightarrow> state \<times> string option" where
  "ai_failure e d c s =
     (let s1 = emit (AiTyping (chatId d) False) s;
          m = errorMessage (now_settled e);
          c1 = push_message c m;
          c2 = c1\<lparr> chat_statistics := (chat_statistics c1)
                     \<lparr> messageCount := length (messages c1), lastActivity := now_settled e \<rparr> \<rparr>
      in case save (failure_save e) (now_settled e) c2 s1 of
           (s2, Inl err) \<Rightarrow> (s2, Some err)
         | (s2, Inr c3) \<Rightarrow>
             (emit (AiResponse (chat_id c3) m (summary_of c3)
                      (Some ''AI service temporarily unavailable'')) s2, None))"

definition exchange :: "env \<Rightarrow> inbound \<Rightarrow> chat \<Rightarrow> state \<Rightarrow> state \<times> string option" where
  "exchange e d c s =
     (let um = userMessage (now_received e) d;
          c1 = push_message c um;
          s1 = emit (MessageReceived (chatId d) um) s;
          s2 = emit (AiTyping (chatId d) True) s1
      in case ai_success e d c1 s2 of
           (s3, None) \<Rightarrow> (s3, None)
         | (s3, Some c2) \<Rightarrow> ai_failure e d c2 s3)"

text \<open>The \<open>chat_message\<close> handler of the connection of user \<open>uid\<close>.\<close>

definition on_chat_message :: "env \<Rightarrow> string \<Rightarrow> inbound \<Rightarrow> state \<Rightarrow> state" where
  "on_chat_message e uid d s =
     (if empty_message d
      then emit (ErrorEvent ''Message or attachments are required'' None) s
      else (case resolve_chat e uid (chatId d) s of
              (s1, Returned) \<Rightarrow> s1
            | (s1, Thrown err) \<Rightarrow> emit (ErrorEvent ''Failed to process message'' (Some err)) s1
            | (s1, Resolved c) \<Rightarrow>
                (case exchange e d c s1 of
                   (s2, None) \<Rightarrow> s2
                 | (s2, Some err) \<Rightarrow>
                     emit (ErrorEvent ''Failed to process message'' (Some err)) s2)))"

subsection \<open>Connections\<close>

record user =
  user_id :: string
  username :: string
  email :: string
  isActive :: bool

record handshake =
  auth_token :: "string option"
  authorization :: "string option"

record socket =
  socket_id :: string
  socket_handshake :: handshake
  socket_user :: "user option"
  rooms :: "string set"
  disconnected :: bool

text \<open>The collaborators of identity verification: \<open>jwt.verify\<close> returns the decoded
  user id or throws one of its errors, \<open>User.findById\<close> returns a user, \<open>null\<close>
  (\<open>Some None\<close>) or throws (\<open>None\<close>).\<close>

datatype jwt_outcome = Decoded string | JsonWebTokenError | TokenExpiredError | OtherError

record auth_env =
  jwt_verify :: "string \<Rightarrow> jwt_outcome"
  findById :: "string \<Rightarrow> user option option"

text \<open>\<open>authenticateSocket\<close>: the socket with the identity attached and \<open>None\<close>
  for \<open>next()\<close>, or \<open>Some\<close> of the message of the error passed to \<open>next\<close>.\<close>

definition socket_token :: "socket \<Rightarrow> string option" where
  "socket_token sock =
     (if truthy (auth_token (socket_handshake sock)) then auth_token (socket_handshake sock)
      else map_option (replace ''Bearer '' []) (authorization (socket_handshake sock)))"

definition authenticateSocket :: "auth_env \<Rightarrow> socket \<Rightarrow> socket \<times> string option" where
  "authenticateSocket a sock =
     (if \<not> truthy (socket_token sock) then (sock, Some ''Authentication token required'')
      else (case jwt_verify a (the (socket_token sock)) of
              Decoded uid \<Rightarrow>
                (case findById a uid of
                   None \<Rightarrow> (sock, Some ''Invalid authentication token'')
                 | Some None \<Rightarrow> (sock, Some ''User not found'')
                 | Some (Some u) \<Rightarrow> (sock\<lparr> socket_user := Some u \<rparr>, None))
            | _ \<Rightarrow> (sock, Some ''Invalid authentication token'')))"

text \<open>\<open>authenticateToken\<close>, the middleware of the HTTP routes: the request goes on
  with the user attached, or is answered with a status, an error and a message.\<close>

datatype http_outcome = Next user | Status nat string string

definition header_token :: "string option \<Rightarrow> string option" where
  "header_token authHeader =
     (if \<not> truthy authHeader then authHeader
      else (case split_space (the authHeader) of
              _ # t # _ \<Rightarrow> Some t
            | _ \<Rightarrow> None))"

definition authenticateToken :: "auth_env \<Rightarrow> string option \<Rightarrow> http_outcome" where
  "authenticateToken a authHeader =
     (if \<not> truthy (header_token authHeader)
      then Status 401 ''Access denied'' ''No token provided''
      else (case jwt_verify a (the (header_token authHeader)) of
              Decoded uid \<Rightarrow>
                (case findById a uid of
                   None \<Rightarrow> Status 500 ''Internal server error'' ''Authentication failed''
                 | Some None \<Rightarrow> Status 401 ''Access denied'' ''Invalid token - user not found''
                 | Some (Some u) \<Rightarrow>
                     if \<not> isActive u then Status 401 ''Access denied'' ''Account is deactivated''
                     else Next u)
            | JsonWebTokenError \<Rightarrow> Status 401 ''Access denied'' ''Invalid token''
            | TokenExpiredError \<Rightarrow> Status 401 ''Access denied'' ''Token expired''
            | OtherError \<Rightarrow> Status 500 ''Internal server error'' ''Authentication failed''))"

text \<open>The process-wide \<open>activeConnections\<close> map, keyed by user id, and the events sent
  to each socket.\<close>

record connection =
  socketId :: string
  connection_user :: user
  connectedAt :: nat

record server =
  activeConnections :: "string \<rightharpoonup> connection"
  outbox :: "(string \<times> event) list"

definition handleSocketConnection :: "nat \<Rightarrow> socket \<Rightarrow> server \<Rightarrow> socket \<times> server" where
  "handleSocketConnection now sock srv =
     (case socket_user sock of
        None \<Rightarrow>
          (sock\<lparr> disconnected := True \<rparr>,
           srv\<lparr> outbox := outbox srv @ [(socket_id sock, ErrorEvent ''Authentication required'' None)] \<rparr>)
      | Some u \<Rightarrow>
          (sock\<lparr> rooms := insert (''user_'' @ user_id u) (rooms sock) \<rparr>,
           srv\<lparr> activeConnections := (activeConnections srv)
                   (user_id u \<mapsto> \<lparr> socketId = socket_id sock, connection_user = u, connectedAt = now \<rparr>),
                outbox := outbox srv @ [(socket_id sock, Connected (user_id u) (username u) (email u))] \<rparr>))"

text \<open>The \<open>disconnect\<close> handler.\<close>

definition on_disconnect :: "socket \<Rightarrow> server \<Rightarrow> socket \<times> server" where
  "on_disconnect sock srv =
     (sock\<lparr> rooms := rooms sock \<inter> {socket_id sock}, disconnected := True \<rparr>,
      (case socket_user sock of
         Some u \<Rightarrow> srv\<lparr> activeConnections := (activeConnections srv)(user_id u := None) \<rparr>
       | None \<Rightarrow> srv))"

definition getUserConnection :: "server \<Rightarrow> string \<Rightarrow> connection option" where
  "getUserConnection srv uid = activeConnections srv uid"

text \<open>\<open>io.use(socketAuthMiddleware)\<close> followed by \<open>io.on("connection", ...)\<close>: the
  connection handler runs only for a socket the middleware let through.\<close>

definition connect :: "auth_env \<Rightarrow> nat \<Rightarrow> socket \<Rightarrow> server \<Rightarrow> socket \<times> server \<times> string option" where
  "connect a now sock srv =
     (case authenticateSocket a sock of
        (sock', Some err) \<Rightarrow> (sock'\<lparr> disconnected := True \<rparr>, srv, Some err)
      | (sock', None) \<Rightarrow>
          (case handleSocketConnection now sock' srv of (sock'', srv') \<Rightarrow> (sock'', srv', None)))"

subsection \<open>Reading the log\<close>

text \<open>The terminal events, the upstream calls and the lookups among the logged calls.\<close>

fun is_response :: "effect \<Rightarrow> bool" where
  "is_response (Emit (AiResponse cid m sm w)) = True"
| "is_response x = False"

fun is_post :: "effect \<Rightarrow> bool" where
  "is_post (AxiosPost r) = True"
| "is_post x = False"

fun is_lookup :: "effect \<Rightarrow> bool" where
  "is_lookup (ChatFindOne cid uid) = True"
| "is_lookup x = False"

definition responses :: "effect list \<Rightarrow> nat" where
  "responses tr = length (filter is_response tr)"

definition posts :: "effect list \<Rightarrow> nat" where
  "posts tr = length (filter is_post tr)"

definition lookups :: "effect list \<Rightarrow> nat" where
  "lookups tr = length (filter is_lookup tr)"

text \<open>A stretch of the log with no upstream call and no lookup in it.\<close>

definition plain :: "effect list \<Rightarrow> bool" where
  "plain xs = (filter (\<lambda>x. is_post x \<or> is_lookup x) xs = [])"

subsection \<open>Concrete inputs\<close>

definition demo_env :: env where
  "demo_env =
     \<lparr> new_id = ''c1'', now_received = 10, now_settled = 20, create_save = Saved,
       findOne_throws = False,
       upstream = AxiosResolves \<lparr> choices = [''Hi there''],
                                   data_model = Some ''deepseek/deepseek-r1'',
                                   usage_total_tokens = Some 42 \<rparr>,
       success_save = Saved, failure_save = Saved \<rparr>"

definition no_state :: state where
  "no_state = \<lparr> trace = [], store = Map.empty \<rparr>"

definition hello :: inbound where
  "hello = \<lparr> chatId = ''default'', message_text = Some ''Hello'', inbound_attachments = [] \<rparr>"

definition blank :: inbound where
  "blank = \<lparr> chatId = ''default'', message_text = Some ''  '', inbound_attachments = [] \<rparr>"

definition alice :: user where
  "alice = \<lparr> user_id = ''u1'', username = ''alice'', email = ''alice@example.org'', isActive = True \<rparr>"

definition socket_of :: "string \<Rightarrow> user option \<Rightarrow> socket" where
  "socket_of sid u =
     \<lparr> socket_id = sid, socket_handshake = \<lparr> auth_token = None, authorization = None \<rparr>,
       socket_user = u, rooms = {sid}, disconnected = False \<rparr>"

definition no_server :: server where
  "no_server = \<lparr> activeConnections = Map.empty, outbox = [] \<rparr>"

definition file_of :: "string \<Rightarrow> string option \<Rightarrow> attachment" where
  "file_of name excerpt =
     \<lparr> filename = name, savedAs = ''upload-1'', mimeType = ''application/pdf'', size = 1024,
       url = ''/uploads/upload-1'', textExcerpt = excerpt \<rparr>"

definition two_files :: inbound where
  "two_files =
     \<lparr> chatId = ''default'', message_text = Some ''check this'',
       inbound_attachments = [file_of ''a.txt'' None, file_of ''b.txt'' None] \<rparr>"

definition outage_env :: env where
  "outage_env =
     demo_env\<lparr> upstream := AxiosRejects TimeoutExceeded, failure_save := SaveRejects ''db down'' \<rparr>"

definition ask :: inbound where
  "ask = \<lparr> chatId = ''c7'', message_text = Some ''And then?'', inbound_attachments = [] \<rparr>"

definition bobs_state :: state where
  "bobs_state =
     \<lparr> trace = [], store = [''c7'' \<mapsto> (new_chat ''c7'' ''u2'' 5)\<lparr> messages_modified := False \<rparr>] \<rparr>"

definition timeout_env :: env where
  "timeout_env = demo_env\<lparr> upstream := AxiosRejects TimeoutExceeded \<rparr>"

definition follow_up :: inbound where
  "follow_up = \<lparr> chatId = ''c1'', message_text = Some ''Hello again'', inbound_attachments = [] \<rparr>"

definition sixty :: inbound where
  "sixty = \<lparr> chatId = ''default'',
             message_text = Some ''Please summarise the attached quarterly report in five lines'',
             inbound_attachments = [] \<rparr>"

definition hello_chat :: chat where
  "hello_chat =
     \<lparr> chat_id = ''c1'', userId = ''u1'', title = ''Hello'',
       chat_settings = \<lparr> settings_model = ''deepseek/deepseek-r1'', temperature = 7 / 10,
                          maxTokens = 2048,
                          systemPrompt = ''You are Venus AI, a helpful and intelligent assistant.'' \<rparr>,
       messages =
         [\<lparr> role = User, content = ''Hello'', attachments = [], timestamp = 10,
            metadata = \<lparr> model = ''deepseek-r1'',
                         tokens = \<lparr> prompt = 0, completion = 0, total = 0 \<rparr>,
                         processingTime = 0, error = None \<rparr> \<rparr>,
          \<lparr> role = Assistant, content = ''Hi there'', attachments = [], timestamp = 20,
            metadata = \<lparr> model = ''deepseek/deepseek-r1'',
                         tokens = \<lparr> prompt = 0, completion = 0, total = 0 \<rparr>,
                         processingTime = 0, error = None \<rparr> \<rparr>],
       chat_statistics = \<lparr> messageCount = 2, totalTokens = 0, lastActivity = 20 \<rparr>,
       messages_modified = False \<rparr>"

definition mallory :: user where
  "mallory = \<lparr> user_id = ''u3'', username = ''mallory'', email = ''mallory@example.org'',
               isActive = False \<rparr>"

definition demo_auth :: auth_env where
  "demo_auth =
     \<lparr> jwt_verify = (\<lambda>t. if t = ''tok-alice'' then Decoded ''u1''
                          else if t = ''tok-mallory'' then Decoded ''u3''
                          else JsonWebTokenError),
       findById = (\<lambda>i. if i = ''u1'' then Some (Some alice)
                        else if i = ''u3'' then Some (Some mallory)
                        else Some None) \<rparr>"

definition knock :: "string option \<Rightarrow> socket" where
  "knock tok =
     \<lparr> socket_id = ''s9'', socket_handshake = \<lparr> auth_token = tok, authorization = None \<rparr>,
       socket_user = None, rooms = {''s9''}, disconnected = False \<rparr>"

definition cast_error_env :: env where
  "cast_error_env = demo_env\<lparr> findOne_throws := True \<rparr>"

definition bad_id :: inbound where
  "bad_id = \<lparr> chatId = ''not-an-id'', message_text = Some ''And then?'', inbound_attachments = [] \<rparr>"

definition alices_state :: state where
  "alices_state =
     \<lparr> trace = [], store = [''c7'' \<mapsto> (new_chat ''c7'' ''u1'' 5)\<lparr> messages_modified := False \<rparr>] \<rparr>"

subsection \<open>The stored content in the specification's words\<close>

text \<open>
  The specification describes the content of the user entry as the trimmed text
  followed by one block per attachment, with the excerpt when it is not null, and the
  placeholder when the result is empty. \<open>spec_content\<close> follows those words, to be
  compared with \<open>userMessage\<close>.
\<close>

definition spec_block :: "attachment \<Rightarrow> string" where
  "spec_block a =
     (case textExcerpt a of
        None \<Rightarrow> ''\<newline>[Attachment: '' @ filename a @ '']''
      | Some x \<Rightarrow> ''\<newline>[Attachment: '' @ filename a @ '']\<newline>'' @ x)"

definition spec_content :: "string option \<Rightarrow> attachment list \<Rightarrow> string" where
  "spec_content m as =
     (let c = trim (case m of None \<Rightarrow> [] | Some t \<Rightarrow> t) @ concat (map spec_block as)
      in if c = [] then ''(no text, attachments only)'' else c)"

section \<open>Properties\<close>

subsection \<open>Trimming\<close>

lemma trim_Nil_iff: "trim t = [] \<longleftrightarrow> (\<forall>c\<in>set t. js_whitespace c)"
proof -
  define d where "d = dropWhile js_whitespace t"
  have head: "d \<noteq> [] \<Longrightarrow> \<not> js_whitespace (hd d)"
    unfolding d_def by (rule hd_dropWhile)
  have "dropWhile js_whitespace (rev d) = [] \<longleftrightarrow> d = []"
  proof
    assume all: "dropWhile js_whitespace (rev d) = []"
    show "d = []"
    proof (rule ccontr)
      assume ne: "d \<noteq> []"
      then have "hd d \<in> set (rev d)" by simp
      with all have "js_whitespace (hd d)" by (simp add: dropWhile_eq_Nil_conv)
      with head [OF ne] show False by simp
    qed
  next
    assume "d = []"
    then show "dropWhile js_whitespace (rev d) = []" by simp
  qed
  then have "trim t = [] \<longleftrightarrow> d = []"
    by (simp add: trim_def d_def)
  then show ?thesis
    by (simp add: d_def dropWhile_eq_Nil_conv)
qed

lemma empty_message_iff:
  "empty_message d \<longleftrightarrow>
     (case message_text d of None \<Rightarrow> True | Some t \<Rightarrow> \<forall>c\<in>set t. js_whitespace c)
     \<and> inbound_attachments d = []"
  by (auto simp: empty_message_def trim_Nil_iff split: option.splits)

subsection \<open>The paths through the handler\<close>

text \<open>Evaluation of a whole run at a concrete input unfolds these definitions.\<close>

lemmas handler_defs = on_chat_message_def empty_message_def resolve_chat_def save_def exchange_def
  ai_success_def ai_failure_def emit_def call_def new_chat_def pre_save_def push_message_def
  cast_message_def cast_metadata_def userMessage_def fullContent_def attachmentNotes_def
  attachment_note_def trim_def js_whitespace_def ai_request_of_def messagesForAI_def summary_of_def
  aiMessage_def errorMessage_def make_title_def count_success_def update_title_def

lemma trace_emit [simp]: "trace (emit ev s) = trace s @ [Emit ev]"
  and store_emit [simp]: "store (emit ev s) = store s"
  by (simp_all add: emit_def)

lemma trace_call [simp]: "trace (call x s) = trace s @ [x]"
  and store_call [simp]: "store (call x s) = store s"
  by (simp_all add: call_def)

lemma save_Saved:
  "save Saved now c s =
     ((call (ChatSave (chat_id c)) s)
        \<lparr> store := (store s)(chat_id c \<mapsto> (pre_save now c)\<lparr> messages_modified := False \<rparr>) \<rparr>,
      Inr ((pre_save now c)\<lparr> messages_modified := False \<rparr>))"
  by (simp add: save_def Let_def)

lemma save_Rejects: "save (SaveRejects m) now c s = (call (ChatSave (chat_id c)) s, Inl m)"
  by (simp add: save_def Let_def)

lemma trace_save: "trace (fst (save out now c s)) = trace s @ [ChatSave (chat_id c)]"
  by (cases out) (simp_all add: save_Saved save_Rejects)

lemma responses_append [simp]: "responses (xs @ ys) = responses xs + responses ys"
  by (simp add: responses_def)

lemma responses_Nil [simp]: "responses [] = 0"
  by (simp add: responses_def)

lemma responses_Cons [simp]: "responses (x # xs) = (if is_response x then 1 else 0) + responses xs"
  by (simp add: responses_def)

lemma ai_success_rejected:
  "upstream e = AxiosRejects err \<Longrightarrow>
   ai_success e d c s = (call (AxiosPost (ai_request_of c)) s, Some c)"
  by (simp add: ai_success_def Let_def)

lemma ai_success_malformed:
  "upstream e = AxiosResolves r \<Longrightarrow> choices r = [] \<Longrightarrow>
   ai_success e d c s
     = (emit (AiTyping (chatId d) False) (call (AxiosPost (ai_request_of c)) s), Some c)"
  by (simp add: ai_success_def Let_def)

lemma ai_success_title_throws:
  "upstream e = AxiosResolves r \<Longrightarrow> choices r = reply # rest \<Longrightarrow>
   update_title (message_text d)
     (count_success (now_settled e) r (push_message c (aiMessage (now_settled e) reply r))) = None \<Longrightarrow>
   ai_success e d c s
     = (emit (AiTyping (chatId d) False) (call (AxiosPost (ai_request_of c)) s),
        Some (count_success (now_settled e) r (push_message c (aiMessage (now_settled e) reply r))))"
  by (simp add: ai_success_def Let_def)

lemma ai_success_save_rejects:
  "upstream e = AxiosResolves r \<Longrightarrow> choices r = reply # rest \<Longrightarrow>
   update_title (message_text d)
     (count_success (now_settled e) r (push_message c (aiMessage (now_settled e) reply r))) = Some c2 \<Longrightarrow>
   success_save e = SaveRejects m \<Longrightarrow>
   ai_success e d c s
     = (call (ChatSave (chat_id c2))
          (emit (AiTyping (chatId d) False) (call (AxiosPost (ai_request_of c)) s)),
        Some c2)"
  by (simp add: ai_success_def Let_def save_Rejects)

lemma ai_success_completes:
  "upstream e = AxiosResolves r \<Longrightarrow> choices r = reply # rest \<Longrightarrow>
   update_title (message_text d)
     (count_success (now_settled e) r (push_message c (aiMessage (now_settled e) reply r))) = Some c2 \<Longrightarrow>
   success_save e = Saved \<Longrightarrow>
   ai_success e d c s
     = (emit (AiResponse (chat_id c2) (aiMessage (now_settled e) reply r)
               (summary_of ((pre_save (now_settled e) c2)\<lparr> messages_modified := False \<rparr>)) None)
          ((call (ChatSave (chat_id c2))
             (emit (AiTyping (chatId d) False) (call (AxiosPost (ai_request_of c)) s)))
           \<lparr> store := (store s)(chat_id c2 \<mapsto> (pre_save (now_settled e) c2)\<lparr> messages_modified := False \<rparr>) \<rparr>),
        None)"
  by (simp add: ai_success_def Let_def save_Saved pre_save_def)

lemma ai_success_cases [consumes 0, case_names rejected malformed title_throws save_rejects completes]:
  obtains err where "upstream e = AxiosRejects err"
  | r where "upstream e = AxiosResolves r" "choices r = []"
  | r reply rest where "upstream e = AxiosResolves r" "choices r = reply # rest"
      "update_title (message_text d)
         (count_success (now_settled e) r (push_message c (aiMessage (now_settled e) reply r))) = None"
  | r reply rest c2 m where "upstream e = AxiosResolves r" "choices r = reply # rest"
      "update_title (message_text d)
         (count_success (now_settled e) r (push_message c (aiMessage (now_settled e) reply r))) = Some c2"
      "success_save e = SaveRejects m"
  | r reply rest c2 where "upstream e = AxiosResolves r" "choices r = reply # rest"
      "update_title (message_text d)
         (count_success (now_settled e) r (push_message c (aiMessage (now_settled e) reply r))) = Some c2"
      "success_save e = Saved"
proof (cases "upstream e")
  case (AxiosRejects err)
  then show ?thesis using that(1) by blast
next
  case (AxiosResolves r)
  show ?thesis
  proof (cases "choices r")
    case Nil
    with AxiosResolves show ?thesis using that(2) by blast
  next
    case (Cons reply rest)
    show ?thesis
    proof (cases "update_title (message_text d)
         (count_success (now_settled e) r (push_message c (aiMessage (now_settled e) reply r)))")
      case None
      with AxiosResolves Cons show ?thesis using that(3) by blast
    next
      case (Some c2)
      show ?thesis
      proof (cases "success_save e")
        case Saved
        with AxiosResolves Cons Some show ?thesis using that(5) by blast
      next
        case (SaveRejects m)
        with AxiosResolves Cons Some show ?thesis using that(4) by blast
      qed
    qed
  qed
qed

lemma ai_success_responses:
  "responses (trace (fst (ai_success e d c s)))
     = responses (trace s) + (case snd (ai_success e d c s) of None \<Rightarrow> 1 | Some c' \<Rightarrow> 0)"
proof (cases rule: ai_success_cases [where e=e and d=d and c=c])
  case (rejected err)
  then show ?thesis by (simp add: ai_success_rejected)
next
  case (malformed r)
  then show ?thesis by (simp add: ai_success_malformed)
next
  case (title_throws r reply rest)
  then show ?thesis by (simp add: ai_success_title_throws)
next
  case (save_rejects r reply rest c2 m)
  then show ?thesis by (simp add: ai_success_save_rejects)
next
  case (completes r reply rest c2)
  then show ?thesis by (simp add: ai_success_completes)
qed

lemma ai_failure_Saved:
  "failure_save e = Saved \<Longrightarrow>
   ai_failure e d c s =
     (let c2 = (push_message c (errorMessage (now_settled e)))
                 \<lparr> chat_statistics := (chat_statistics c)
                      \<lparr> messageCount := Suc (length (messages c)), lastActivity := now_settled e \<rparr> \<rparr>;
          c3 = (pre_save (now_settled e) c2)\<lparr> messages_modified := False \<rparr>
      in (emit (AiResponse (chat_id c) (errorMessage (now_settled e)) (summary_of c3)
                 (Some ''AI service temporarily unavailable''))
            ((call (ChatSave (chat_id c)) (emit (AiTyping (chatId d) False) s))
               \<lparr> store := (store s)(chat_id c \<mapsto> c3) \<rparr>),
          None))"
  by (simp add: ai_failure_def Let_def save_Saved push_message_def pre_save_def)

lemma ai_failure_Rejects:
  "failure_save e = SaveRejects m \<Longrightarrow>
   ai_failure e d c s
     = (call (ChatSave (chat_id c)) (emit (AiTyping (chatId d) False) s), Some m)"
  by (simp add: ai_failure_def Let_def save_Rejects push_message_def)

lemma ai_failure_responses:
  "responses (trace (fst (ai_failure e d c s)))
     = responses (trace s) + (case failure_save e of Saved \<Rightarrow> 1 | SaveRejects m \<Rightarrow> 0)"
  by (cases "failure_save e") (simp_all add: ai_failure_Saved ai_failure_Rejects Let_def)

lemma ai_failure_result:
  "snd (ai_failure e d c s) = (case failure_save e of Saved \<Rightarrow> None | SaveRejects m \<Rightarrow> Some m)"
  by (cases "failure_save e") (simp_all add: ai_failure_Saved ai_failure_Rejects Let_def)

lemma exchange_unfold:
  "exchange e d c s =
     (case ai_success e d (push_message c (userMessage (now_received e) d))
             (emit (AiTyping (chatId d) True)
                (emit (MessageReceived (chatId d) (userMessage (now_received e) d)) s)) of
        (s3, None) \<Rightarrow> (s3, None)
      | (s3, Some c2) \<Rightarrow> ai_failure e d c2 s3)"
  by (simp add: exchange_def Let_def)

lemma exchange_responses:
  "responses (trace (fst (exchange e d c s)))
     = responses (trace s) + (case snd (exchange e d c s) of None \<Rightarrow> 1 | Some m \<Rightarrow> 0)"
proof -
  let ?s2 = "emit (AiTyping (chatId d) True)
               (emit (MessageReceived (chatId d) (userMessage (now_received e) d)) s)"
  let ?c1 = "push_message c (userMessage (now_received e) d)"
  obtain s3 r where a: "ai_success e d ?c1 ?s2 = (s3, r)" by (cases "ai_success e d ?c1 ?s2")
  have r3: "responses (trace s3) = responses (trace s) + (case r of None \<Rightarrow> 1 | Some c' \<Rightarrow> 0)"
    using ai_success_responses [of e d ?c1 ?s2] a by simp
  show ?thesis
  proof (cases r)
    case None
    with a r3 show ?thesis by (simp add: exchange_unfold)
  next
    case (Some c2)
    have "responses (trace (fst (ai_failure e d c2 s3)))
            = responses (trace s3) + (case snd (ai_failure e d c2 s3) of None \<Rightarrow> 1 | Some m \<Rightarrow> 0)"
      by (simp add: ai_failure_responses ai_failure_result split: save_outcome.splits)
    with a r3 Some show ?thesis by (simp add: exchange_unfold)
  qed
qed

lemma exchange_result_Saved: "failure_save e = Saved \<Longrightarrow> snd (exchange e d c s) = None"
proof -
  assume f: "failure_save e = Saved"
  let ?s2 = "emit (AiTyping (chatId d) True)
               (emit (MessageReceived (chatId d) (userMessage (now_received e) d)) s)"
  let ?c1 = "push_message c (userMessage (now_received e) d)"
  obtain s3 r where a: "ai_success e d ?c1 ?s2 = (s3, r)" by (cases "ai_success e d ?c1 ?s2")
  show ?thesis
    using a f by (cases r) (simp_all add: exchange_unfold ai_failure_result)
qed

lemma resolve_default_Saved:
  "create_save e = Saved \<Longrightarrow>
   resolve_chat e uid ''default'' s =
     ((call (ChatSave (new_id e)) s)
        \<lparr> store := (store s)(new_id e \<mapsto> (new_chat (new_id e) uid (now_received e))\<lparr> messages_modified := False \<rparr>) \<rparr>,
      Resolved ((new_chat (new_id e) uid (now_received e))\<lparr> messages_modified := False \<rparr>))"
  by (simp add: resolve_chat_def save_Saved pre_save_def new_chat_def)

lemma resolve_default_Rejects:
  "create_save e = SaveRejects m \<Longrightarrow>
   resolve_chat e uid ''default'' s = (call (ChatSave (new_id e)) s, Thrown m)"
  by (simp add: resolve_chat_def save_Rejects new_chat_def)

lemma resolve_existing:
  "cid \<noteq> ''default'' \<Longrightarrow>
   resolve_chat e uid cid s =
     (if findOne_throws e
      then (emit (ErrorEvent ''Invalid chat ID'' None) (call (ChatFindOne cid uid) s), Returned)
      else (case store s cid of
              None \<Rightarrow> (emit (ErrorEvent ''Chat not found'' None) (call (ChatFindOne cid uid) s), Returned)
            | Some c \<Rightarrow>
                if userId c = uid then (call (ChatFindOne cid uid) s, Resolved c)
                else (emit (ErrorEvent ''Chat not found'' None) (call (ChatFindOne cid uid) s), Returned)))"
  by (simp add: resolve_chat_def Let_def)

lemma resolve_responses: "responses (trace (fst (resolve_chat e uid cid s))) = responses (trace s)"
proof (cases "cid = ''default''")
  case True
  then show ?thesis
    by (cases "create_save e") (simp_all add: resolve_default_Saved resolve_default_Rejects)
next
  case False
  then show ?thesis
    by (simp add: resolve_existing split: option.splits)
qed

lemma on_chat_message_resolved:
  assumes "\<not> empty_message d" and "resolve_chat e uid (chatId d) s = (s1, Resolved c)"
  shows "on_chat_message e uid d s =
           (case exchange e d c s1 of
              (s2, None) \<Rightarrow> s2
            | (s2, Some err) \<Rightarrow> emit (ErrorEvent ''Failed to process message'' (Some err)) s2)"
  using assms by (simp add: on_chat_message_def)

lemma valid_message_iff:
  "\<not> empty_message d \<longleftrightarrow>
     (\<exists>t. message_text d = Some t \<and> trim t \<noteq> []) \<or> inbound_attachments d \<noteq> []"
  by (cases "message_text d") (auto simp: empty_message_def trim_def)

lemma on_chat_message_responses:
  assumes "\<not> empty_message d" and "resolve_chat e uid (chatId d) s = (s1, Resolved c)"
  shows "responses (trace (on_chat_message e uid d s))
           = responses (trace s) + (case snd (exchange e d c s1) of None \<Rightarrow> 1 | Some m \<Rightarrow> 0)"
proof -
  have r1: "responses (trace s1) = responses (trace s)"
    using resolve_responses [of e uid "chatId d" s] assms(2) by simp
  obtain s2 r where x: "exchange e d c s1 = (s2, r)" by (cases "exchange e d c s1")
  have r2: "responses (trace s2) = responses (trace s1) + (case r of None \<Rightarrow> 1 | Some m \<Rightarrow> 0)"
    using exchange_responses [of e d c s1] x by simp
  show ?thesis
    using assms x r1 r2 by (cases r) (simp_all add: on_chat_message_resolved)
qed

lemma plain_simps [simp]:
  "plain []"
  "plain (Emit ev # xs) = plain xs"
  "plain (ChatSave cid # xs) = plain xs"
  "plain (xs @ ys) = (plain xs \<and> plain ys)"
  by (simp_all add: plain_def)

lemma plain_filter: "plain xs \<Longrightarrow> filter is_post xs = [] \<and> filter is_lookup xs = []"
  by (induction xs) (auto simp: plain_def split: if_splits)

lemma ai_success_trace:
  "\<exists>xs. trace (fst (ai_success e d c s)) = trace s @ AxiosPost (ai_request_of c) # xs \<and> plain xs"
proof (cases rule: ai_success_cases [where e=e and d=d and c=c])
  case (rejected err)
  then show ?thesis by (simp add: ai_success_rejected)
next
  case (malformed r)
  then show ?thesis by (simp add: ai_success_malformed)
next
  case (title_throws r reply rest)
  then show ?thesis by (simp add: ai_success_title_throws)
next
  case (save_rejects r reply rest c2 m)
  then show ?thesis by (simp add: ai_success_save_rejects)
next
  case (completes r reply rest c2)
  then show ?thesis by (simp add: ai_success_completes)
qed

lemma ai_failure_trace:
  "\<exists>xs. trace (fst (ai_failure e d c s)) = trace s @ xs \<and> plain xs"
  by (cases "failure_save e") (simp_all add: ai_failure_Saved ai_failure_Rejects Let_def)

lemma exchange_trace:
  "\<exists>xs ys. trace (fst (exchange e d c s))
     = trace s @ xs @ AxiosPost (ai_request_of (push_message c (userMessage (now_received e) d))) # ys
     \<and> plain xs \<and> plain ys"
proof -
  let ?s2 = "emit (AiTyping (chatId d) True)
               (emit (MessageReceived (chatId d) (userMessage (now_received e) d)) s)"
  let ?c1 = "push_message c (userMessage (now_received e) d)"
  let ?xs = "[Emit (MessageReceived (chatId d) (userMessage (now_received e) d)),
              Emit (AiTyping (chatId d) True)]"
  obtain s3 r where a: "ai_success e d ?c1 ?s2 = (s3, r)" by (cases "ai_success e d ?c1 ?s2")
  obtain ys where t3: "trace s3 = trace ?s2 @ AxiosPost (ai_request_of ?c1) # ys" and ys: "plain ys"
    using ai_success_trace [of e d ?c1 ?s2] a by auto
  show ?thesis
  proof (cases r)
    case None
    with a have "trace (fst (exchange e d c s)) = trace s3" by (simp add: exchange_unfold)
    with t3 have "trace (fst (exchange e d c s)) = trace s @ ?xs @ AxiosPost (ai_request_of ?c1) # ys"
      by simp
    moreover have "plain ?xs" by simp
    ultimately show ?thesis using ys by blast
  next
    case (Some c2)
    obtain zs where t4: "trace (fst (ai_failure e d c2 s3)) = trace s3 @ zs" and zs: "plain zs"
      using ai_failure_trace [of e d c2 s3] by auto
    from a Some have "trace (fst (exchange e d c s)) = trace (fst (ai_failure e d c2 s3))"
      by (simp add: exchange_unfold)
    with t3 t4 have "trace (fst (exchange e d c s))
        = trace s @ ?xs @ AxiosPost (ai_request_of ?c1) # (ys @ zs)"
      by simp
    moreover have "plain ?xs" by simp
    moreover have "plain (ys @ zs)" using ys zs by simp
    ultimately show ?thesis by blast
  qed
qed

lemma on_chat_message_trace:
  assumes "\<not> empty_message d" and "resolve_chat e uid (chatId d) s = (s1, Resolved c)"
  shows "\<exists>xs ys. trace (on_chat_message e uid d s)
     = trace s1 @ xs @ AxiosPost (ai_request_of (push_message c (userMessage (now_received e) d))) # ys
     \<and> plain xs \<and> plain ys"
proof -
  obtain s2 r where x: "exchange e d c s1 = (s2, r)" by (cases "exchange e d c s1")
  obtain xs ys where t2: "trace s2
     = trace s1 @ xs @ AxiosPost (ai_request_of (push_message c (userMessage (now_received e) d))) # ys"
    and p: "plain xs" "plain ys"
    using exchange_trace [of e d c s1] x by auto
  show ?thesis
  proof (cases r)
    case None
    with x assms have "trace (on_chat_message e uid d s) = trace s2"
      by (simp add: on_chat_message_resolved)
    with t2 have "trace (on_chat_message e uid d s)
     = trace s1 @ xs @ AxiosPost (ai_request_of (push_message c (userMessage (now_received e) d))) # ys"
      by simp
    with p show ?thesis by blast
  next
    case (Some err)
    with x assms have "trace (on_chat_message e uid d s)
        = trace s2 @ [Emit (ErrorEvent ''Failed to process message'' (Some err))]"
      by (simp add: on_chat_message_resolved)
    with t2 have "trace (on_chat_message e uid d s)
     = trace s1 @ xs @ AxiosPost (ai_request_of (push_message c (userMessage (now_received e) d)))
         # (ys @ [Emit (ErrorEvent ''Failed to process message'' (Some err))])"
      by simp
    moreover have "plain (ys @ [Emit (ErrorEvent ''Failed to process message'' (Some err))])"
      using p by simp
    ultimately show ?thesis using p by blast
  qed
qed

lemma resolved_trace:
  assumes "resolve_chat e uid cid s = (s1, Resolved c)"
  shows "trace s1 = trace s @ [if cid = ''default'' then ChatSave (new_id e) else ChatFindOne cid uid]"
proof (cases "cid = ''default''")
  case True
  with assms show ?thesis
    by (cases "create_save e") (auto simp: resolve_default_Saved resolve_default_Rejects)
next
  case False
  with assms show ?thesis
    by (auto simp: resolve_existing split: if_splits option.splits)
qed

lemma upstream_irrelevant:
  "on_chat_message (e\<lparr> upstream := AxiosRejects err1 \<rparr>) uid d s
     = on_chat_message (e\<lparr> upstream := AxiosRejects err2 \<rparr>) uid d s"
proof -
  have r: "resolve_chat (e\<lparr> upstream := AxiosRejects err1 \<rparr>) uid (chatId d) s
         = resolve_chat (e\<lparr> upstream := AxiosRejects err2 \<rparr>) uid (chatId d) s"
    by (simp add: resolve_chat_def)
  have f: "\<And>c s. ai_failure (e\<lparr> upstream := AxiosRejects err1 \<rparr>) d c s
         = ai_failure (e\<lparr> upstream := AxiosRejects err2 \<rparr>) d c s"
    by (simp add: ai_failure_def)
  have x: "\<And>c s. exchange (e\<lparr> upstream := AxiosRejects err1 \<rparr>) d c s
         = exchange (e\<lparr> upstream := AxiosRejects err2 \<rparr>) d c s"
    by (simp add: exchange_unfold ai_success_rejected f)
  show ?thesis
    by (simp add: on_chat_message_def r x)
qed

lemma resolve_lookups:
  "filter is_lookup (trace (fst (resolve_chat e uid cid s)))
     = filter is_lookup (trace s) @ (if cid = ''default'' then [] else [ChatFindOne cid uid])"
proof (cases "cid = ''default''")
  case True
  then show ?thesis
    by (cases "create_save e") (simp_all add: resolve_default_Saved resolve_default_Rejects)
next
  case False
  then show ?thesis
    by (simp add: resolve_existing split: option.splits)
qed

lemma on_chat_message_lookups:
  assumes "\<not> empty_message d"
  shows "filter is_lookup (trace (on_chat_message e uid d s))
           = filter is_lookup (trace (fst (resolve_chat e uid (chatId d) s)))"
proof -
  obtain s1 r where res: "resolve_chat e uid (chatId d) s = (s1, r)"
    by (cases "resolve_chat e uid (chatId d) s")
  show ?thesis
  proof (cases r)
    case (Resolved c)
    obtain xs ys where t: "trace (on_chat_message e uid d s)
       = trace s1 @ xs @ AxiosPost (ai_request_of (push_message c (userMessage (now_received e) d))) # ys"
      and p: "plain xs" "plain ys"
      using on_chat_message_trace [OF assms] res Resolved by blast
    from t p res show ?thesis by (simp add: plain_filter)
  next
    case Returned
    with assms res show ?thesis by (simp add: on_chat_message_def)
  next
    case (Thrown m)
    with assms res show ?thesis by (simp add: on_chat_message_def)
  qed
qed

lemma exchange_rejected_Saved:
  assumes "upstream e = AxiosRejects err" and "failure_save e = Saved"
  shows "exchange e d c s =
     (let um = userMessage (now_received e) d;
          em = errorMessage (now_settled e);
          c' = c\<lparr> messages := messages c @ [cast_message um, cast_message em],
                  chat_statistics :=
                    \<lparr> messageCount = length (messages c) + 2,
                      totalTokens = foldl (\<lambda>t msg. t + total (tokens (metadata msg))) 0 (messages c),
                      lastActivity = now_settled e \<rparr>,
                  messages_modified := False \<rparr>
      in (\<lparr> trace = trace s @
                [Emit (MessageReceived (chatId d) um), Emit (AiTyping (chatId d) True),
                 AxiosPost (ai_request_of (push_message c um)), Emit (AiTyping (chatId d) False),
                 ChatSave (chat_id c),
                 Emit (AiResponse (chat_id c) em (summary_of c')
                         (Some ''AI service temporarily unavailable''))],
              store = (store s)(chat_id c \<mapsto> c') \<rparr>,
          None))"
  using assms
  by (simp add: exchange_unfold ai_success_rejected ai_failure_Saved Let_def emit_def call_def
        push_message_def pre_save_def cast_message_def cast_metadata_def errorMessage_def
        userMessage_def)

lemma exchange_rejected_Rejects:
  assumes "upstream e = AxiosRejects err" and "failure_save e = SaveRejects m"
  shows "exchange e d c s =
     (s\<lparr> trace := trace s @
            [Emit (MessageReceived (chatId d) (userMessage (now_received e) d)),
             Emit (AiTyping (chatId d) True),
             AxiosPost (ai_request_of (push_message c (userMessage (now_received e) d))),
             Emit (AiTyping (chatId d) False),
             ChatSave (chat_id c)] \<rparr>,
      Some m)"
  using assms
  by (simp add: exchange_unfold ai_success_rejected ai_failure_Rejects emit_def call_def
        push_message_def)

lemma update_title_keeps:
  "length (messages c) \<noteq> 2 \<or> title c \<noteq> ''New Chat'' \<Longrightarrow> update_title m c = Some c"
  by (auto simp: update_title_def)

lemma counted_fields:
  "length (messages (count_success now r (push_message c m))) = Suc (length (messages c))"
  "title (count_success now r (push_message c m)) = title c"
  "chat_id (count_success now r (push_message c m)) = chat_id c"
  by (simp_all add: count_success_def push_message_def)

lemma saved_fields:
  "title ((pre_save now c)\<lparr> messages_modified := False \<rparr>) = title c"
  "chat_id ((pre_save now c)\<lparr> messages_modified := False \<rparr>) = chat_id c"
  "messages ((pre_save now c)\<lparr> messages_modified := False \<rparr>) = messages c"
  by (simp_all add: pre_save_def)

lemma ai_success_keeps_title:
  assumes "length (messages c) \<noteq> 1 \<or> title c \<noteq> ''New Chat''"
  shows "case ai_success e d c s of
           (s', None) \<Rightarrow> \<exists>c'. store s' = (store s)(chat_id c \<mapsto> c') \<and> title c' = title c
         | (s', Some c2) \<Rightarrow> store s' = store s \<and> title c2 = title c \<and> chat_id c2 = chat_id c"
proof -
  have keep: "\<And>r reply. update_title (message_text d)
        (count_success (now_settled e) r (push_message c (aiMessage (now_settled e) reply r)))
      = Some (count_success (now_settled e) r (push_message c (aiMessage (now_settled e) reply r)))"
    using assms by (intro update_title_keeps) (auto simp: counted_fields)
  show ?thesis
  proof (cases rule: ai_success_cases [where e=e and d=d and c=c])
    case (rejected err)
    then show ?thesis by (simp add: ai_success_rejected)
  next
    case (malformed r)
    then show ?thesis by (simp add: ai_success_malformed)
  next
    case (title_throws r reply rest)
    then show ?thesis using keep by simp
  next
    case (save_rejects r reply rest c2 m)
    moreover from save_rejects keep
    have "c2 = count_success (now_settled e) r (push_message c (aiMessage (now_settled e) reply r))"
      by simp
    ultimately show ?thesis
      by (simp add: ai_success_save_rejects counted_fields)
  next
    case (completes r reply rest c2)
    let ?D = "(pre_save (now_settled e) c2)\<lparr> messages_modified := False \<rparr>"
    from completes keep
    have c2: "c2 = count_success (now_settled e) r (push_message c (aiMessage (now_settled e) reply r))"
      by simp
    have "snd (ai_success e d c s) = None" and "store (fst (ai_success e d c s)) = (store s)(chat_id c \<mapsto> ?D)"
      using completes by (simp_all add: ai_success_completes c2 counted_fields)
    moreover have "title ?D = title c"
      by (simp add: saved_fields c2 counted_fields)
    ultimately show ?thesis
      by (cases "ai_success e d c s") auto
  qed
qed

lemma ai_failure_keeps_title:
  "store (fst (ai_failure e d c s)) = store s
   \<or> (\<exists>c'. store (fst (ai_failure e d c s)) = (store s)(chat_id c \<mapsto> c') \<and> title c' = title c)"
proof (cases "failure_save e")
  case Saved
  let ?D = "(pre_save (now_settled e)
              ((push_message c (errorMessage (now_settled e)))
                 \<lparr> chat_statistics := (chat_statistics c)
                      \<lparr> messageCount := Suc (length (messages c)), lastActivity := now_settled e \<rparr> \<rparr>))
            \<lparr> messages_modified := False \<rparr>"
  have "store (fst (ai_failure e d c s)) = (store s)(chat_id c \<mapsto> ?D)"
    using Saved by (simp add: ai_failure_Saved Let_def)
  moreover have "title ?D = title c"
    by (simp add: saved_fields push_message_def)
  ultimately show ?thesis by blast
next
  case (SaveRejects m)
  then show ?thesis by (simp add: ai_failure_Rejects)
qed

lemma exchange_keeps_title:
  assumes "messages c \<noteq> [] \<or> title c \<noteq> ''New Chat''"
  shows "store (fst (exchange e d c s)) = store s
       \<or> (\<exists>c'. store (fst (exchange e d c s)) = (store s)(chat_id c \<mapsto> c') \<and> title c' = title c)"
proof -
  let ?s2 = "emit (AiTyping (chatId d) True)
               (emit (MessageReceived (chatId d) (userMessage (now_received e) d)) s)"
  let ?c1 = "push_message c (userMessage (now_received e) d)"
  have pre: "length (messages ?c1) \<noteq> 1 \<or> title ?c1 \<noteq> ''New Chat''"
    using assms by (auto simp: push_message_def)
  have f1: "title ?c1 = title c" "chat_id ?c1 = chat_id c" "store ?s2 = store s"
    by (simp_all add: push_message_def)
  obtain s3 r where a: "ai_success e d ?c1 ?s2 = (s3, r)" by (cases "ai_success e d ?c1 ?s2")
  note k = ai_success_keeps_title [OF pre, where e=e and d=d and s="?s2"]
  show ?thesis
  proof (cases r)
    case None
    with a k f1 show ?thesis by (simp add: exchange_unfold)
  next
    case (Some c2)
    with a k f1 have s3: "store s3 = store s" "title c2 = title c" "chat_id c2 = chat_id c"
      by simp_all
    from a Some have "fst (exchange e d c s) = fst (ai_failure e d c2 s3)"
      by (simp add: exchange_unfold)
    with ai_failure_keeps_title [of e d c2 s3] s3 show ?thesis by simp
  qed
qed

lemma exchange_first_success:
  assumes "upstream e = AxiosResolves r" and "choices r = reply # rest"
    and "success_save e = Saved" and "message_text d = Some t"
    and "messages c = []" and "title c = ''New Chat''"
  shows "snd (exchange e d c s) = None
       \<and> (\<exists>c'. store (fst (exchange e d c s)) (chat_id c) = Some c'
             \<and> map role (messages c') = [User, Assistant]
             \<and> title c' = make_title (trim t))"
proof -
  let ?c1 = "push_message c (userMessage (now_received e) d)"
  let ?cnt = "count_success (now_settled e) r (push_message ?c1 (aiMessage (now_settled e) reply r))"
  have u: "update_title (message_text d) ?cnt = Some (?cnt\<lparr> title := make_title (trim t) \<rparr>)"
    using assms by (simp add: update_title_def count_success_def push_message_def)
  note a = ai_success_completes [OF assms(1) assms(2) u assms(3),
      of "emit (AiTyping (chatId d) True)
            (emit (MessageReceived (chatId d) (userMessage (now_received e) d)) s)"]
  show ?thesis
    unfolding exchange_unfold a
    using assms(5)
    by (simp add: pre_save_def count_success_def push_message_def cast_message_def
          userMessage_def aiMessage_def)
qed

lemmas demo_defs = demo_env_def timeout_env_def outage_env_def hello_def no_state_def follow_up_def

lemma first_run_store:
  "store (on_chat_message demo_env ''u1'' hello no_state) ''c1'' = Some hello_chat"
  by (simp add: handler_defs demo_defs hello_chat_def Let_def)

lemma resolve_default_demo:
  "create_save e = Saved \<Longrightarrow> new_id e = ''c1'' \<Longrightarrow> now_received e = 10 \<Longrightarrow>
   resolve_chat e ''u1'' ''default'' no_state
       = ((call (ChatSave ''c1'') no_state)
            \<lparr> store := (store no_state)(''c1'' \<mapsto> (new_chat ''c1'' ''u1'' 10)\<lparr> messages_modified := False \<rparr>) \<rparr>,
          Resolved ((new_chat ''c1'' ''u1'' 10)\<lparr> messages_modified := False \<rparr>))"
  using resolve_default_Saved [of e "''u1''" no_state] by simp

subsection \<open>Rejected before anything is stored\<close>

text \<open>
  C7. An inbound message whose text is absent, empty or white space only and whose
  attachment list is empty is answered with the one error event
  "Message or attachments are required" and nothing else happens: the log of calls
  gains no lookup, no save and no upstream call, and the store is the one before.
\<close>

theorem empty_message_rejected:
  assumes "case message_text d of None \<Rightarrow> True | Some t \<Rightarrow> \<forall>c\<in>set t. js_whitespace c"
    and "inbound_attachments d = []"
  shows "on_chat_message e uid d s =
           s\<lparr> trace := trace s @ [Emit (ErrorEvent ''Message or attachments are required'' None)] \<rparr>"
  using assms by (simp add: on_chat_message_def empty_message_iff emit_def)

theorem empty_message_rejected_witness:
  "(case message_text blank of None \<Rightarrow> True | Some t \<Rightarrow> \<forall>c\<in>set t. js_whitespace c)
   \<and> inbound_attachments blank = []
   \<and> on_chat_message demo_env ''u1'' blank no_state =
       \<lparr> trace = [Emit (ErrorEvent ''Message or attachments are required'' None)],
         store = Map.empty \<rparr>"
proof -
  have h1: "case message_text blank of None \<Rightarrow> True | Some t \<Rightarrow> \<forall>c\<in>set t. js_whitespace c"
    by (simp add: blank_def js_whitespace_def)
  have h2: "inbound_attachments blank = []"
    by (simp add: blank_def)
  show ?thesis
    using h1 h2 empty_message_rejected [OF h1 h2, of demo_env "''u1''" no_state]
    by (simp add: no_state_def)
qed

subsection \<open>The connection registry\<close>

text \<open>
  C10. When a user connects on socket \<open>a\<close>, connects again on socket \<open>b\<close> (which
  overwrites the registry entry, now holding \<open>b\<close>'s socket id) and socket \<open>a\<close> then
  disconnects, the entry is removed by user id alone: the registry reports the user
  absent although \<open>b\<close> is still open.
\<close>

theorem disconnect_removes_newer_connection:
  assumes "socket_user a = Some u" and "socket_user b = Some u'" and "user_id u' = user_id u"
  shows "getUserConnection
           (snd (handleSocketConnection t2 b (snd (handleSocketConnection t1 a srv)))) (user_id u)
           = Some \<lparr> socketId = socket_id b, connection_user = u', connectedAt = t2 \<rparr>
       \<and> getUserConnection
            (snd (on_disconnect (fst (handleSocketConnection t1 a srv))
                   (snd (handleSocketConnection t2 b (snd (handleSocketConnection t1 a srv))))))
            (user_id u) = None"
  using assms by (simp add: getUserConnection_def handleSocketConnection_def on_disconnect_def)

theorem disconnect_removes_newer_connection_witness:
  "socket_user (socket_of ''s1'' (Some alice)) = Some alice
   \<and> socket_user (socket_of ''s2'' (Some alice)) = Some alice
   \<and> getUserConnection
        (snd (handleSocketConnection 2 (socket_of ''s2'' (Some alice))
               (snd (handleSocketConnection 1 (socket_of ''s1'' (Some alice)) no_server))))
        ''u1''
       = Some \<lparr> socketId = ''s2'', connection_user = alice, connectedAt = 2 \<rparr>
   \<and> getUserConnection
        (snd (on_disconnect (fst (handleSocketConnection 1 (socket_of ''s1'' (Some alice)) no_server))
               (snd (handleSocketConnection 2 (socket_of ''s2'' (Some alice))
                      (snd (handleSocketConnection 1 (socket_of ''s1'' (Some alice)) no_server))))))
        ''u1'' = None"
proof -
  have h1: "socket_user (socket_of ''s1'' (Some alice)) = Some alice"
    by (simp add: socket_of_def)
  have h2: "socket_user (socket_of ''s2'' (Some alice)) = Some alice"
    by (simp add: socket_of_def)
  have h3: "user_id alice = user_id alice" by simp
  have u: "user_id alice = ''u1''" by (simp add: alice_def)
  have sid: "socket_id (socket_of ''s2'' (Some alice)) = ''s2''" by (simp add: socket_of_def)
  show ?thesis
    using h1 h2 disconnect_removes_newer_connection [OF h1 h2 h3, of 2 1 no_server]
    by (simp add: u sid)
qed

subsection \<open>The content of the user entry\<close>

lemmas content_defs = userMessage_def fullContent_def attachmentNotes_def attachment_note_def
  trim_def js_whitespace_def file_of_def

text \<open>
  C6, as stated, fails. For the text "check this" with two attachments without
  excerpt the handler stores the two filename tags with an empty line between them,
  because the blocks, each starting with a line feed, are joined with a further line
  feed; plain concatenation of the blocks, as the claim words it, has no empty line.
\<close>

theorem user_content_counterexample:
  "lit_content (userMessage 10 two_files)
     = ''check this\<newline>[Attachment: a.txt]\<newline>\<newline>[Attachment: b.txt]''
   \<and> spec_content (message_text two_files) (inbound_attachments two_files)
     = ''check this\<newline>[Attachment: a.txt]\<newline>[Attachment: b.txt]''"
  by (simp add: content_defs two_files_def spec_content_def spec_block_def)

text \<open>
  C6, amended. The stored content of the user entry is the trimmed text followed by
  the attachment blocks joined with a line feed, the whole trimmed once more; a block
  is the filename tag followed by a line feed and the excerpt when the excerpt is
  neither null nor empty, and the filename tag alone otherwise. When the result is
  empty the placeholder "(no text, attachments only)" is stored, so the stored content
  is never empty. The text "check this" with the attachment "report.pdf" stores
  "check this\<newline>[Attachment: report.pdf]\<newline>Q3 revenue up 10%" with that
  excerpt and "check this\<newline>[Attachment: report.pdf]" without an excerpt.
\<close>

theorem user_content:
  "lit_content (userMessage now d) =
     (let c = trim (trim (case message_text d of None \<Rightarrow> [] | Some t \<Rightarrow> t)
                    @ join ''\<newline>''
                        (map (\<lambda>a. if textExcerpt a = None \<or> textExcerpt a = Some []
                                   then ''\<newline>[Attachment: '' @ filename a @ '']''
                                   else ''\<newline>[Attachment: '' @ filename a @ '']\<newline>''
                                        @ the (textExcerpt a))
                           (inbound_attachments d)))
      in if c = [] then ''(no text, attachments only)'' else c)
   \<and> lit_content (userMessage now d) \<noteq> []
   \<and> lit_content (userMessage now
        \<lparr> chatId = cid, message_text = Some ''check this'',
          inbound_attachments = [file_of ''report.pdf'' (Some ''Q3 revenue up 10%'')] \<rparr>)
       = ''check this\<newline>[Attachment: report.pdf]\<newline>Q3 revenue up 10%''
   \<and> lit_content (userMessage now
        \<lparr> chatId = cid, message_text = Some ''check this'',
          inbound_attachments = [file_of ''report.pdf'' None] \<rparr>)
       = ''check this\<newline>[Attachment: report.pdf]''"
proof -
  have blk: "attachment_note =
     (\<lambda>a. if textExcerpt a = None \<or> textExcerpt a = Some []
           then ''\<newline>[Attachment: '' @ filename a @ '']''
           else ''\<newline>[Attachment: '' @ filename a @ '']\<newline>'' @ the (textExcerpt a))"
  proof
    fix a
    show "attachment_note a =
        (if textExcerpt a = None \<or> textExcerpt a = Some []
         then ''\<newline>[Attachment: '' @ filename a @ '']''
         else ''\<newline>[Attachment: '' @ filename a @ '']\<newline>'' @ the (textExcerpt a))"
      by (cases "textExcerpt a") (simp_all add: attachment_note_def)
  qed
  have general: "lit_content (userMessage now d) =
     (let c = trim (trim (case message_text d of None \<Rightarrow> [] | Some t \<Rightarrow> t)
                    @ join ''\<newline>'' (map attachment_note (inbound_attachments d)))
      in if c = [] then ''(no text, attachments only)'' else c)"
    by (simp add: userMessage_def fullContent_def attachmentNotes_def)
  have nonempty: "lit_content (userMessage now d) \<noteq> []"
    by (simp add: userMessage_def Let_def)
  have ex1: "lit_content (userMessage now
        \<lparr> chatId = cid, message_text = Some ''check this'',
          inbound_attachments = [file_of ''report.pdf'' (Some ''Q3 revenue up 10%'')] \<rparr>)
       = ''check this\<newline>[Attachment: report.pdf]\<newline>Q3 revenue up 10%''"
    by (simp add: content_defs)
  have ex2: "lit_content (userMessage now
        \<lparr> chatId = cid, message_text = Some ''check this'',
          inbound_attachments = [file_of ''report.pdf'' None] \<rparr>)
       = ''check this\<newline>[Attachment: report.pdf]''"
    by (simp add: content_defs)
  from general nonempty ex1 ex2 show ?thesis
    unfolding blk by blast
qed

subsection \<open>Terminal events\<close>

text \<open>
  C1, as stated, fails. The message "Hello" on a new conversation is valid and the
  conversation is created, but when the upstream call times out and the save of the
  failure path is rejected by the store, the handler ends in its outer \<open>catch\<close>: it
  emits an \<open>error\<close> event and no \<open>ai_response\<close> at all.
\<close>

theorem one_terminal_response_counterexample:
  "message_text hello = Some ''Hello'' \<and> trim ''Hello'' \<noteq> []
   \<and> snd (resolve_chat outage_env ''u1'' (chatId hello) no_state)
       = Resolved ((new_chat ''c1'' ''u1'' 10)\<lparr> messages_modified := False \<rparr>)
   \<and> responses (trace (on_chat_message outage_env ''u1'' hello no_state)) = 0"
  by (simp add: handler_defs outage_env_def demo_env_def hello_def no_state_def responses_def Let_def)

text \<open>
  C1, amended. For every valid inbound message (trimmed text non-empty or attachment
  list non-empty) whose conversation is resolved, the handler emits at most one
  terminal \<open>ai_response\<close> event, and exactly one whenever the save of the failure
  path is not rejected. When the upstream call is rejected and that save is rejected
  too, no terminal event is emitted and the last event is the \<open>error\<close> event
  "Failed to process message" with the save's message as details.
\<close>

theorem one_terminal_response:
  assumes "(\<exists>t. message_text d = Some t \<and> trim t \<noteq> []) \<or> inbound_attachments d \<noteq> []"
    and "resolve_chat e uid (chatId d) s = (s1, Resolved c)"
  shows "responses (trace (on_chat_message e uid d s)) \<le> responses (trace s) + 1
       \<and> (failure_save e = Saved \<longrightarrow>
            responses (trace (on_chat_message e uid d s)) = responses (trace s) + 1)
       \<and> (\<forall>err m. upstream e = AxiosRejects err \<and> failure_save e = SaveRejects m \<longrightarrow>
            responses (trace (on_chat_message e uid d s)) = responses (trace s)
            \<and> last (trace (on_chat_message e uid d s))
                = Emit (ErrorEvent ''Failed to process message'' (Some m)))"
proof -
  from assms(1) have valid: "\<not> empty_message d" by (simp add: valid_message_iff)
  note count = on_chat_message_responses [OF valid assms(2)]
  have upper: "responses (trace (on_chat_message e uid d s)) \<le> responses (trace s) + 1"
    using count by (simp split: option.splits)
  have exact: "failure_save e = Saved \<longrightarrow>
      responses (trace (on_chat_message e uid d s)) = responses (trace s) + 1"
    using count by (simp add: exchange_result_Saved)
  have none: "\<forall>err m. upstream e = AxiosRejects err \<and> failure_save e = SaveRejects m \<longrightarrow>
            responses (trace (on_chat_message e uid d s)) = responses (trace s)
            \<and> last (trace (on_chat_message e uid d s))
                = Emit (ErrorEvent ''Failed to process message'' (Some m))"
  proof (intro allI impI, elim conjE)
    fix err m
    assume u: "upstream e = AxiosRejects err" and f: "failure_save e = SaveRejects m"
    have x: "snd (exchange e d c s1) = Some m"
      using u f by (simp add: exchange_unfold ai_success_rejected ai_failure_Rejects)
    have "last (trace (on_chat_message e uid d s))
            = Emit (ErrorEvent ''Failed to process message'' (Some m))"
      using x by (cases "exchange e d c s1") (simp add: on_chat_message_resolved [OF valid assms(2)])
    with count x show "responses (trace (on_chat_message e uid d s)) = responses (trace s)
            \<and> last (trace (on_chat_message e uid d s))
                = Emit (ErrorEvent ''Failed to process message'' (Some m))"
      by simp
  qed
  from upper exact none show ?thesis by blast
qed

theorem one_terminal_response_witness:
  "((\<exists>t. message_text hello = Some t \<and> trim t \<noteq> []) \<or> inbound_attachments hello \<noteq> [])
   \<and> resolve_chat demo_env ''u1'' (chatId hello) no_state
       = ((call (ChatSave ''c1'') no_state)
            \<lparr> store := (store no_state)(''c1'' \<mapsto> (new_chat ''c1'' ''u1'' 10)\<lparr> messages_modified := False \<rparr>) \<rparr>,
          Resolved ((new_chat ''c1'' ''u1'' 10)\<lparr> messages_modified := False \<rparr>))
   \<and> failure_save demo_env = Saved
   \<and> responses (trace (on_chat_message demo_env ''u1'' hello no_state)) = 1
   \<and> resolve_chat outage_env ''u1'' (chatId hello) no_state
       = ((call (ChatSave ''c1'') no_state)
            \<lparr> store := (store no_state)(''c1'' \<mapsto> (new_chat ''c1'' ''u1'' 10)\<lparr> messages_modified := False \<rparr>) \<rparr>,
          Resolved ((new_chat ''c1'' ''u1'' 10)\<lparr> messages_modified := False \<rparr>))
   \<and> upstream outage_env = AxiosRejects TimeoutExceeded
   \<and> failure_save outage_env = SaveRejects ''db down''
   \<and> last (trace (on_chat_message outage_env ''u1'' hello no_state))
       = Emit (ErrorEvent ''Failed to process message'' (Some ''db down''))"
proof -
  have h1: "(\<exists>t. message_text hello = Some t \<and> trim t \<noteq> []) \<or> inbound_attachments hello \<noteq> []"
    by (simp add: hello_def trim_def js_whitespace_def)
  have h2: "resolve_chat demo_env ''u1'' (chatId hello) no_state
       = ((call (ChatSave ''c1'') no_state)
            \<lparr> store := (store no_state)(''c1'' \<mapsto> (new_chat ''c1'' ''u1'' 10)\<lparr> messages_modified := False \<rparr>) \<rparr>,
          Resolved ((new_chat ''c1'' ''u1'' 10)\<lparr> messages_modified := False \<rparr>))"
    using resolve_default_Saved [of demo_env "''u1''" no_state]
    by (simp add: demo_env_def hello_def)
  have h3: "failure_save demo_env = Saved"
    by (simp add: demo_env_def)
  have h4: "resolve_chat outage_env ''u1'' (chatId hello) no_state
       = ((call (ChatSave ''c1'') no_state)
            \<lparr> store := (store no_state)(''c1'' \<mapsto> (new_chat ''c1'' ''u1'' 10)\<lparr> messages_modified := False \<rparr>) \<rparr>,
          Resolved ((new_chat ''c1'' ''u1'' 10)\<lparr> messages_modified := False \<rparr>))"
    using resolve_default_Saved [of outage_env "''u1''" no_state]
    by (simp add: outage_env_def demo_env_def hello_def)
  have h5: "upstream outage_env = AxiosRejects TimeoutExceeded"
    and h6: "failure_save outage_env = SaveRejects ''db down''"
    by (simp_all add: outage_env_def)
  have zero: "responses (trace no_state) = 0"
    by (simp add: no_state_def)
  have one: "responses (trace (on_chat_message demo_env ''u1'' hello no_state)) = 1"
    using one_terminal_response [OF h1 h2] h3 zero by simp
  have err: "last (trace (on_chat_message outage_env ''u1'' hello no_state))
       = Emit (ErrorEvent ''Failed to process message'' (Some ''db down''))"
    using one_terminal_response [OF h1 h4] h5 h6 by blast
  from h1 h2 h3 h4 h5 h6 one err show ?thesis
    by blast
qed

subsection \<open>The upstream call\<close>

text \<open>
  C9, as stated, fails in its last part. A timed-out call and a call that failed in
  transport leave the same log and the same store: the stored entry and the terminal
  event carry the one error kind "ai_service_error" and the one warning
  "AI service temporarily unavailable", so no reason tells a timeout apart.
\<close>

theorem timeout_not_distinguished_counterexample:
  "on_chat_message (demo_env\<lparr> upstream := AxiosRejects TimeoutExceeded \<rparr>) ''u1'' hello no_state
     = on_chat_message (demo_env\<lparr> upstream := AxiosRejects NetworkError \<rparr>) ''u1'' hello no_state
   \<and> last (trace (on_chat_message (demo_env\<lparr> upstream := AxiosRejects TimeoutExceeded \<rparr>) ''u1'' hello no_state))
     = Emit (AiResponse ''c1'' (errorMessage 20)
         \<lparr> summary_id = ''c1'', summary_title = ''New Chat'', summary_messageCount = 2,
           summary_totalTokens = 0 \<rparr>
         (Some ''AI service temporarily unavailable''))
   \<and> lit_errorType (the (lit_metadata (errorMessage 20))) = Some ''ai_service_error''"
  by (simp add: handler_defs demo_env_def hello_def no_state_def Let_def)

text \<open>
  C9, amended. For every valid inbound message whose conversation is resolved the
  upstream completion call is made exactly once (a rejected call is not repeated),
  and the request is sent with a timeout of 120000 ms. A rejected call is handled the
  same whatever made it fail: the run for any rejection, a timeout included, equals
  the run for a timeout.
\<close>

theorem single_upstream_attempt:
  assumes "\<not> empty_message d" and "resolve_chat e uid (chatId d) s = (s1, Resolved c)"
  shows "filter is_post (trace (on_chat_message e uid d s))
           = filter is_post (trace s)
             @ [AxiosPost (ai_request_of (push_message c (userMessage (now_received e) d)))]
       \<and> posts (trace (on_chat_message e uid d s)) = posts (trace s) + 1
       \<and> req_timeout (ai_request_of (push_message c (userMessage (now_received e) d))) = 120000
       \<and> (\<forall>err. on_chat_message (e\<lparr> upstream := AxiosRejects err \<rparr>) uid d s
                 = on_chat_message (e\<lparr> upstream := AxiosRejects TimeoutExceeded \<rparr>) uid d s)"
proof -
  obtain xs ys where t: "trace (on_chat_message e uid d s)
     = trace s1 @ xs @ AxiosPost (ai_request_of (push_message c (userMessage (now_received e) d))) # ys"
    and p: "plain xs" "plain ys"
    using on_chat_message_trace [OF assms] by auto
  have t1: "filter is_post (trace s1) = filter is_post (trace s)"
    using resolved_trace [OF assms(2)] by simp
  have f: "filter is_post (trace (on_chat_message e uid d s))
           = filter is_post (trace s)
             @ [AxiosPost (ai_request_of (push_message c (userMessage (now_received e) d)))]"
    using t t1 p by (simp add: plain_filter)
  then have "posts (trace (on_chat_message e uid d s)) = posts (trace s) + 1"
    by (simp add: posts_def)
  moreover have "req_timeout (ai_request_of (push_message c (userMessage (now_received e) d))) = 120000"
    by (simp add: ai_request_of_def)
  ultimately show ?thesis
    using f upstream_irrelevant [where e=e and ?err2.0=TimeoutExceeded and uid=uid and d=d and s=s]
    by simp
qed

theorem single_upstream_attempt_witness:
  "\<not> empty_message hello
   \<and> resolve_chat demo_env ''u1'' (chatId hello) no_state
       = ((call (ChatSave ''c1'') no_state)
            \<lparr> store := (store no_state)(''c1'' \<mapsto> (new_chat ''c1'' ''u1'' 10)\<lparr> messages_modified := False \<rparr>) \<rparr>,
          Resolved ((new_chat ''c1'' ''u1'' 10)\<lparr> messages_modified := False \<rparr>))
   \<and> posts (trace (on_chat_message demo_env ''u1'' hello no_state)) = 1"
proof -
  have h1: "\<not> empty_message hello"
    by (simp add: empty_message_def hello_def trim_def js_whitespace_def)
  have h2: "resolve_chat demo_env ''u1'' (chatId hello) no_state
       = ((call (ChatSave ''c1'') no_state)
            \<lparr> store := (store no_state)(''c1'' \<mapsto> (new_chat ''c1'' ''u1'' 10)\<lparr> messages_modified := False \<rparr>) \<rparr>,
          Resolved ((new_chat ''c1'' ''u1'' 10)\<lparr> messages_modified := False \<rparr>))"
    using resolve_default_Saved [of demo_env "''u1''" no_state]
    by (simp add: demo_env_def hello_def)
  have "posts (trace no_state) = 0"
    by (simp add: no_state_def posts_def)
  with h1 h2 single_upstream_attempt [OF h1 h2] show ?thesis
    by simp
qed

subsection \<open>Conversation resolution\<close>

text \<open>
  C5, as stated, fails for a conversation id the store cannot look up. For the id
  "not-an-id" no conversation exists, the lookup itself throws, and the handler
  answers with the error event "Invalid chat ID", which is not the "Chat not found"
  rejection of a missing conversation.
\<close>

theorem lookup_rejection_counterexample:
  "chatId bad_id \<noteq> ''default''
   \<and> store no_state (chatId bad_id) = None
   \<and> findOne_throws cast_error_env
   \<and> trace (on_chat_message cast_error_env ''u1'' bad_id no_state)
       = [ChatFindOne ''not-an-id'' ''u1'', Emit (ErrorEvent ''Invalid chat ID'' None)]"
  by (simp add: handler_defs cast_error_env_def demo_env_def bad_id_def no_state_def)

text \<open>
  C5, amended. For a valid inbound message whose conversation id is the sentinel
  "default" the handler makes no lookup at all and resolves to a freshly constructed
  conversation (saved at once; a rejected save is thrown). For any other conversation
  id exactly one lookup is made, by that id and the sender's user id. When the lookup
  returns and the conversation is missing, or is owned by a different user, the run
  consists of the lookup and the one error event "Chat not found", and nothing else
  happens: it is the same rejection in both cases. When the lookup throws, the run
  consists of the lookup and the one error event "Invalid chat ID", and nothing else
  happens. When the lookup returns a conversation owned by the sender, that
  conversation is the one the exchange runs on, with no further ownership check.
\<close>

theorem conversation_resolution:
  assumes "\<not> empty_message d"
  shows "(chatId d = ''default'' \<longrightarrow>
            lookups (trace (on_chat_message e uid d s)) = lookups (trace s)
          \<and> resolve_chat e uid (chatId d) s =
              (case create_save e of
                 Saved \<Rightarrow>
                   ((call (ChatSave (new_id e)) s)
                      \<lparr> store := (store s)(new_id e \<mapsto>
                           (new_chat (new_id e) uid (now_received e))\<lparr> messages_modified := False \<rparr>) \<rparr>,
                    Resolved ((new_chat (new_id e) uid (now_received e))\<lparr> messages_modified := False \<rparr>))
               | SaveRejects m \<Rightarrow> (call (ChatSave (new_id e)) s, Thrown m)))
       \<and> (chatId d \<noteq> ''default'' \<longrightarrow>
            filter is_lookup (trace (on_chat_message e uid d s))
              = filter is_lookup (trace s) @ [ChatFindOne (chatId d) uid])
       \<and> (chatId d \<noteq> ''default'' \<and> \<not> findOne_throws e
            \<and> (store s (chatId d) = None \<or> (\<exists>c. store s (chatId d) = Some c \<and> userId c \<noteq> uid)) \<longrightarrow>
            on_chat_message e uid d s
              = s\<lparr> trace := trace s @ [ChatFindOne (chatId d) uid,
                                         Emit (ErrorEvent ''Chat not found'' None)] \<rparr>)
       \<and> (chatId d \<noteq> ''default'' \<and> findOne_throws e \<longrightarrow>
            on_chat_message e uid d s
              = s\<lparr> trace := trace s @ [ChatFindOne (chatId d) uid,
                                         Emit (ErrorEvent ''Invalid chat ID'' None)] \<rparr>)
       \<and> (\<forall>c. chatId d \<noteq> ''default'' \<and> \<not> findOne_throws e
              \<and> store s (chatId d) = Some c \<and> userId c = uid \<longrightarrow>
              resolve_chat e uid (chatId d) s = (call (ChatFindOne (chatId d) uid) s, Resolved c)
            \<and> on_chat_message e uid d s
                = (case exchange e d c (call (ChatFindOne (chatId d) uid) s) of
                     (s2, None) \<Rightarrow> s2
                   | (s2, Some err) \<Rightarrow>
                       emit (ErrorEvent ''Failed to process message'' (Some err)) s2))"
proof -
  note look = on_chat_message_lookups [OF assms, of e uid s] resolve_lookups [of e uid "chatId d" s]
  have a: "chatId d = ''default'' \<longrightarrow> lookups (trace (on_chat_message e uid d s)) = lookups (trace s)"
    using look by (simp add: lookups_def)
  have b: "chatId d = ''default'' \<longrightarrow> resolve_chat e uid (chatId d) s =
              (case create_save e of
                 Saved \<Rightarrow>
                   ((call (ChatSave (new_id e)) s)
                      \<lparr> store := (store s)(new_id e \<mapsto>
                           (new_chat (new_id e) uid (now_received e))\<lparr> messages_modified := False \<rparr>) \<rparr>,
                    Resolved ((new_chat (new_id e) uid (now_received e))\<lparr> messages_modified := False \<rparr>))
               | SaveRejects m \<Rightarrow> (call (ChatSave (new_id e)) s, Thrown m))"
    by (cases "create_save e") (simp_all add: resolve_default_Saved resolve_default_Rejects)
  have c: "chatId d \<noteq> ''default'' \<longrightarrow>
            filter is_lookup (trace (on_chat_message e uid d s))
              = filter is_lookup (trace s) @ [ChatFindOne (chatId d) uid]"
    using look by simp
  have d: "chatId d \<noteq> ''default'' \<and> \<not> findOne_throws e
            \<and> (store s (chatId d) = None \<or> (\<exists>c. store s (chatId d) = Some c \<and> userId c \<noteq> uid)) \<longrightarrow>
            on_chat_message e uid d s
              = s\<lparr> trace := trace s @ [ChatFindOne (chatId d) uid,
                                         Emit (ErrorEvent ''Chat not found'' None)] \<rparr>"
    using assms by (auto simp: on_chat_message_def resolve_existing emit_def call_def)
  have t: "chatId d \<noteq> ''default'' \<and> findOne_throws e \<longrightarrow>
            on_chat_message e uid d s
              = s\<lparr> trace := trace s @ [ChatFindOne (chatId d) uid,
                                         Emit (ErrorEvent ''Invalid chat ID'' None)] \<rparr>"
    using assms by (simp add: on_chat_message_def resolve_existing emit_def call_def)
  have f: "\<forall>c. chatId d \<noteq> ''default'' \<and> \<not> findOne_throws e
              \<and> store s (chatId d) = Some c \<and> userId c = uid \<longrightarrow>
              resolve_chat e uid (chatId d) s = (call (ChatFindOne (chatId d) uid) s, Resolved c)
            \<and> on_chat_message e uid d s
                = (case exchange e d c (call (ChatFindOne (chatId d) uid) s) of
                     (s2, None) \<Rightarrow> s2
                   | (s2, Some err) \<Rightarrow>
                       emit (ErrorEvent ''Failed to process message'' (Some err)) s2)"
  proof (intro allI impI, elim conjE)
    fix c
    assume h: "chatId d \<noteq> ''default''" "\<not> findOne_throws e"
      "store s (chatId d) = Some c" "userId c = uid"
    then have r: "resolve_chat e uid (chatId d) s = (call (ChatFindOne (chatId d) uid) s, Resolved c)"
      by (simp add: resolve_existing)
    with on_chat_message_resolved [OF assms r]
    show "resolve_chat e uid (chatId d) s = (call (ChatFindOne (chatId d) uid) s, Resolved c)
            \<and> on_chat_message e uid d s
                = (case exchange e d c (call (ChatFindOne (chatId d) uid) s) of
                     (s2, None) \<Rightarrow> s2
                   | (s2, Some err) \<Rightarrow>
                       emit (ErrorEvent ''Failed to process message'' (Some err)) s2)"
      by simp
  qed
  from a b c d t f show ?thesis by blast
qed

theorem conversation_resolution_witness:
  "\<not> empty_message hello \<and> chatId hello = ''default''
   \<and> lookups (trace (on_chat_message demo_env ''u1'' hello no_state)) = 0
   \<and> \<not> empty_message ask \<and> chatId ask \<noteq> ''default'' \<and> \<not> findOne_throws demo_env
   \<and> store no_state (chatId ask) = None
   \<and> on_chat_message demo_env ''u1'' ask no_state
       = \<lparr> trace = [ChatFindOne ''c7'' ''u1'', Emit (ErrorEvent ''Chat not found'' None)],
           store = Map.empty \<rparr>
   \<and> map_option userId (store bobs_state (chatId ask)) = Some ''u2''
   \<and> on_chat_message demo_env ''u1'' ask bobs_state
       = bobs_state\<lparr> trace := [ChatFindOne ''c7'' ''u1'', Emit (ErrorEvent ''Chat not found'' None)] \<rparr>
   \<and> \<not> empty_message bad_id \<and> chatId bad_id \<noteq> ''default'' \<and> findOne_throws cast_error_env
   \<and> on_chat_message cast_error_env ''u1'' bad_id no_state
       = no_state\<lparr> trace := [ChatFindOne ''not-an-id'' ''u1'', Emit (ErrorEvent ''Invalid chat ID'' None)] \<rparr>
   \<and> map_option userId (store alices_state (chatId ask)) = Some ''u1''
   \<and> resolve_chat demo_env ''u1'' (chatId ask) alices_state
       = (call (ChatFindOne ''c7'' ''u1'') alices_state,
          Resolved ((new_chat ''c7'' ''u1'' 5)\<lparr> messages_modified := False \<rparr>))"
proof -
  have h1: "\<not> empty_message hello" and h2: "\<not> empty_message ask" and h3: "\<not> empty_message bad_id"
    by (simp_all add: empty_message_def hello_def ask_def bad_id_def trim_def js_whitespace_def)
  have d1: "chatId hello = ''default''" and d2: "chatId ask \<noteq> ''default''" and d3: "chatId ask = ''c7''"
    and d4: "chatId bad_id \<noteq> ''default''" and d5: "chatId bad_id = ''not-an-id''"
    by (simp_all add: hello_def ask_def bad_id_def)
  have f: "\<not> findOne_throws demo_env" by (simp add: demo_env_def)
  have f': "findOne_throws cast_error_env" by (simp add: cast_error_env_def)
  have m1: "store no_state (chatId ask) = None" by (simp add: no_state_def)
  have m2: "\<exists>c. store bobs_state (chatId ask) = Some c \<and> userId c \<noteq> ''u1''"
    by (simp add: bobs_state_def ask_def new_chat_def)
  have m3: "map_option userId (store bobs_state (chatId ask)) = Some ''u2''"
    by (simp add: bobs_state_def ask_def new_chat_def)
  have m4: "store alices_state (chatId ask) = Some ((new_chat ''c7'' ''u1'' 5)\<lparr> messages_modified := False \<rparr>)"
    and m5: "userId ((new_chat ''c7'' ''u1'' 5)\<lparr> messages_modified := False \<rparr>) = ''u1''"
    by (simp_all add: alices_state_def ask_def new_chat_def)
  have m6: "map_option userId (store alices_state (chatId ask)) = Some ''u1''"
    by (simp add: m4 m5)
  have z: "lookups (trace no_state) = 0" by (simp add: no_state_def lookups_def)
  have r1: "lookups (trace (on_chat_message demo_env ''u1'' hello no_state)) = 0"
    using conversation_resolution [OF h1, of demo_env "''u1''" no_state] d1 z by simp
  have r2: "on_chat_message demo_env ''u1'' ask no_state
       = \<lparr> trace = [ChatFindOne ''c7'' ''u1'', Emit (ErrorEvent ''Chat not found'' None)],
           store = Map.empty \<rparr>"
    using conversation_resolution [OF h2, of demo_env "''u1''" no_state] d2 f m1
    by (simp add: d3 no_state_def)
  have r3: "on_chat_message demo_env ''u1'' ask bobs_state
       = bobs_state\<lparr> trace := [ChatFindOne ''c7'' ''u1'', Emit (ErrorEvent ''Chat not found'' None)] \<rparr>"
    using conversation_resolution [OF h2, of demo_env "''u1''" bobs_state] d2 f m2
    by (simp add: d3 bobs_state_def)
  have r4: "on_chat_message cast_error_env ''u1'' bad_id no_state
       = no_state\<lparr> trace := [ChatFindOne ''not-an-id'' ''u1'', Emit (ErrorEvent ''Invalid chat ID'' None)] \<rparr>"
    using conversation_resolution [OF h3, of cast_error_env "''u1''" no_state] d4 f'
    by (simp add: d5 no_state_def)
  have r5: "resolve_chat demo_env ''u1'' (chatId ask) alices_state
       = (call (ChatFindOne ''c7'' ''u1'') alices_state,
          Resolved ((new_chat ''c7'' ''u1'' 5)\<lparr> messages_modified := False \<rparr>))"
    using conversation_resolution [OF h2, of demo_env "''u1''" alices_state] d2 f m4 m5
    by (simp add: d3)
  from h1 h2 h3 d1 d2 d4 f f' m1 m3 m6 r1 r2 r3 r4 r5 show ?thesis by blast
qed

subsection \<open>The failure path\<close>

text \<open>
  C3, as stated, fails in its last part. When the upstream call times out and the save
  of the failure path is rejected, neither persistence nor emission completes: the
  stored conversation still has no entry and the run ends with an \<open>error\<close> event,
  without any \<open>ai_response\<close>.
\<close>

theorem upstream_failure_counterexample:
  "upstream outage_env = AxiosRejects TimeoutExceeded
   \<and> map_option messages (store (on_chat_message outage_env ''u1'' hello no_state) ''c1'') = Some []
   \<and> trace (on_chat_message outage_env ''u1'' hello no_state)
       = [ChatSave ''c1'',
          Emit (MessageReceived ''default'' (userMessage 10 hello)),
          Emit (AiTyping ''default'' True),
          AxiosPost \<lparr> req_messages =
                        [(System, ''You are Venus AI, a helpful and intelligent assistant.''),
                         (User, ''Hello'')],
                      req_model = ''deepseek/deepseek-r1'', req_temperature = 7 / 10,
                      req_max_tokens = 2048, req_timeout = 120000 \<rparr>,
          Emit (AiTyping ''default'' False),
          ChatSave ''c1'',
          Emit (ErrorEvent ''Failed to process message'' (Some ''db down''))]"
  by (simp add: handler_defs demo_defs Let_def)

text \<open>
  C3, amended. For every valid exchange on a resolved conversation whose upstream call
  is rejected (a timeout included), the handler appends a generated entry with the
  fixed apology as content, sets the entry count to the list length and last activity
  to the time of settlement, and saves. When the save is not rejected, the stored
  conversation ends with that entry, marked as an error in its stored metadata; its
  token total is the sum over the entries it had before, to which the two new entries
  add nothing; its title is unchanged; and the last event is an \<open>ai_response\<close> of
  the same shape as on success, with the stored conversation's summary and the warning
  "AI service temporarily unavailable". The entry carried by that event has the error
  kind "ai_service_error". When the save is rejected, nothing is stored, no
  \<open>ai_response\<close> is emitted and the run ends with the \<open>error\<close> event
  "Failed to process message"; the handler itself does not throw.
\<close>

theorem upstream_failure_recovered:
  assumes "\<not> empty_message d"
    and "resolve_chat e uid (chatId d) s = (s1, Resolved c)"
    and "upstream e = AxiosRejects err"
  shows "(failure_save e = Saved \<longrightarrow>
           (\<exists>c'. store (on_chat_message e uid d s) (chat_id c) = Some c'
              \<and> messages c' = messages c @ [cast_message (userMessage (now_received e) d),
                                             cast_message (errorMessage (now_settled e))]
              \<and> role (last (messages c')) = Assistant
              \<and> content (last (messages c')) =
                  ''I apologize, but I'' @ [CHR 0x27] @
                  ''m currently unable to process your request. Please try again later.''
              \<and> error (metadata (last (messages c'))) = Some ''true''
              \<and> messageCount (chat_statistics c') = length (messages c')
              \<and> lastActivity (chat_statistics c') = now_settled e
              \<and> totalTokens (chat_statistics c')
                  = foldl (\<lambda>t msg. t + total (tokens (metadata msg))) 0 (messages c)
              \<and> title c' = title c
              \<and> last (trace (on_chat_message e uid d s))
                  = Emit (AiResponse (chat_id c) (errorMessage (now_settled e)) (summary_of c')
                            (Some ''AI service temporarily unavailable''))))
       \<and> lit_metadata (errorMessage (now_settled e))
           = Some \<lparr> lit_model = None, lit_usage = None, lit_error = Some True,
                    lit_errorType = Some ''ai_service_error'' \<rparr>
       \<and> (\<forall>m. failure_save e = SaveRejects m \<longrightarrow>
             store (on_chat_message e uid d s) = store s1
           \<and> responses (trace (on_chat_message e uid d s)) = responses (trace s)
           \<and> last (trace (on_chat_message e uid d s))
               = Emit (ErrorEvent ''Failed to process message'' (Some m)))"
proof -
  have ok: "failure_save e = Saved \<longrightarrow>
           (\<exists>c'. store (on_chat_message e uid d s) (chat_id c) = Some c'
              \<and> messages c' = messages c @ [cast_message (userMessage (now_received e) d),
                                             cast_message (errorMessage (now_settled e))]
              \<and> role (last (messages c')) = Assistant
              \<and> content (last (messages c')) =
                  ''I apologize, but I'' @ [CHR 0x27] @
                  ''m currently unable to process your request. Please try again later.''
              \<and> error (metadata (last (messages c'))) = Some ''true''
              \<and> messageCount (chat_statistics c') = length (messages c')
              \<and> lastActivity (chat_statistics c') = now_settled e
              \<and> totalTokens (chat_statistics c')
                  = foldl (\<lambda>t msg. t + total (tokens (metadata msg))) 0 (messages c)
              \<and> title c' = title c
              \<and> last (trace (on_chat_message e uid d s))
                  = Emit (AiResponse (chat_id c) (errorMessage (now_settled e)) (summary_of c')
                            (Some ''AI service temporarily unavailable'')))"
  proof
    assume f: "failure_save e = Saved"
    show "\<exists>c'. store (on_chat_message e uid d s) (chat_id c) = Some c'
              \<and> messages c' = messages c @ [cast_message (userMessage (now_received e) d),
                                             cast_message (errorMessage (now_settled e))]
              \<and> role (last (messages c')) = Assistant
              \<and> content (last (messages c')) =
                  ''I apologize, but I'' @ [CHR 0x27] @
                  ''m currently unable to process your request. Please try again later.''
              \<and> error (metadata (last (messages c'))) = Some ''true''
              \<and> messageCount (chat_statistics c') = length (messages c')
              \<and> lastActivity (chat_statistics c') = now_settled e
              \<and> totalTokens (chat_statistics c')
                  = foldl (\<lambda>t msg. t + total (tokens (metadata msg))) 0 (messages c)
              \<and> title c' = title c
              \<and> last (trace (on_chat_message e uid d s))
                  = Emit (AiResponse (chat_id c) (errorMessage (now_settled e)) (summary_of c')
                            (Some ''AI service temporarily unavailable''))"
      using assms f
      by (simp add: on_chat_message_resolved exchange_rejected_Saved Let_def
            cast_message_def cast_metadata_def errorMessage_def)
  qed
  have kind: "lit_metadata (errorMessage (now_settled e))
           = Some \<lparr> lit_model = None, lit_usage = None, lit_error = Some True,
                    lit_errorType = Some ''ai_service_error'' \<rparr>"
    by (simp add: errorMessage_def)
  have bad: "\<forall>m. failure_save e = SaveRejects m \<longrightarrow>
             store (on_chat_message e uid d s) = store s1
           \<and> responses (trace (on_chat_message e uid d s)) = responses (trace s)
           \<and> last (trace (on_chat_message e uid d s))
               = Emit (ErrorEvent ''Failed to process message'' (Some m))"
  proof (intro allI impI)
    fix m assume f: "failure_save e = SaveRejects m"
    have r1: "responses (trace s1) = responses (trace s)"
      using resolve_responses [of e uid "chatId d" s] assms(2) by simp
    show "store (on_chat_message e uid d s) = store s1
           \<and> responses (trace (on_chat_message e uid d s)) = responses (trace s)
           \<and> last (trace (on_chat_message e uid d s))
               = Emit (ErrorEvent ''Failed to process message'' (Some m))"
      using assms f r1
      by (simp add: on_chat_message_resolved exchange_rejected_Rejects)
  qed
  from ok kind bad show ?thesis by blast
qed

theorem upstream_failure_recovered_witness:
  "\<not> empty_message hello
   \<and> resolve_chat timeout_env ''u1'' (chatId hello) no_state
       = ((call (ChatSave ''c1'') no_state)
            \<lparr> store := (store no_state)(''c1'' \<mapsto> (new_chat ''c1'' ''u1'' 10)\<lparr> messages_modified := False \<rparr>) \<rparr>,
          Resolved ((new_chat ''c1'' ''u1'' 10)\<lparr> messages_modified := False \<rparr>))
   \<and> upstream timeout_env = AxiosRejects TimeoutExceeded
   \<and> failure_save timeout_env = Saved
   \<and> map_option (\<lambda>c. (map role (messages c), error (metadata (last (messages c))),
                       messageCount (chat_statistics c), totalTokens (chat_statistics c),
                       lastActivity (chat_statistics c)))
        (store (on_chat_message timeout_env ''u1'' hello no_state) ''c1'')
       = Some ([User, Assistant], Some ''true'', 2, 0, 20)
   \<and> failure_save outage_env = SaveRejects ''db down''
   \<and> last (trace (on_chat_message outage_env ''u1'' hello no_state))
       = Emit (ErrorEvent ''Failed to process message'' (Some ''db down''))"
proof -
  let ?c = "(new_chat ''c1'' ''u1'' 10)\<lparr> messages_modified := False \<rparr>"
  have h1: "\<not> empty_message hello"
    by (simp add: empty_message_def hello_def trim_def js_whitespace_def)
  have h2: "resolve_chat timeout_env ''u1'' (chatId hello) no_state
       = ((call (ChatSave ''c1'') no_state)
            \<lparr> store := (store no_state)(''c1'' \<mapsto> ?c) \<rparr>, Resolved ?c)"
    by (simp add: hello_def resolve_default_demo timeout_env_def demo_env_def)
  have h2': "resolve_chat outage_env ''u1'' (chatId hello) no_state
       = ((call (ChatSave ''c1'') no_state)
            \<lparr> store := (store no_state)(''c1'' \<mapsto> ?c) \<rparr>, Resolved ?c)"
    by (simp add: hello_def resolve_default_demo outage_env_def demo_env_def)
  have h3: "upstream timeout_env = AxiosRejects TimeoutExceeded"
    and h4: "failure_save timeout_env = Saved"
    and h3': "upstream outage_env = AxiosRejects TimeoutExceeded"
    and h5: "failure_save outage_env = SaveRejects ''db down''"
    and t: "now_settled timeout_env = 20" "now_received timeout_env = 10"
    by (simp_all add: timeout_env_def outage_env_def demo_env_def)
  have c: "chat_id ?c = ''c1''" "messages ?c = []"
    by (simp_all add: new_chat_def)
  from upstream_failure_recovered [OF h1 h2 h3] h4
  obtain c' where "store (on_chat_message timeout_env ''u1'' hello no_state) (chat_id ?c) = Some c'"
    and "messages c' = messages ?c @ [cast_message (userMessage (now_received timeout_env) hello),
                                      cast_message (errorMessage (now_settled timeout_env))]"
    and "error (metadata (last (messages c'))) = Some ''true''"
    and "messageCount (chat_statistics c') = length (messages c')"
    and "lastActivity (chat_statistics c') = now_settled timeout_env"
    and "totalTokens (chat_statistics c')
           = foldl (\<lambda>t msg. t + total (tokens (metadata msg))) 0 (messages ?c)"
    by blast
  then have ok: "map_option (\<lambda>c. (map role (messages c), error (metadata (last (messages c))),
                       messageCount (chat_statistics c), totalTokens (chat_statistics c),
                       lastActivity (chat_statistics c)))
        (store (on_chat_message timeout_env ''u1'' hello no_state) ''c1'')
       = Some ([User, Assistant], Some ''true'', 2, 0, 20)"
    by (simp add: c t cast_message_def userMessage_def errorMessage_def)
  have bad: "last (trace (on_chat_message outage_env ''u1'' hello no_state))
       = Emit (ErrorEvent ''Failed to process message'' (Some ''db down''))"
    using upstream_failure_recovered [OF h1 h2' h3'] h5 by blast
  from h1 h2 h3 h4 h5 ok bad show ?thesis by blast
qed

subsection \<open>The title\<close>

text \<open>
  C4, as stated, fails. When the first exchange of a new conversation ends in an
  upstream failure, the conversation reaches exactly two entries, one user and one
  generated, and its title stays the placeholder; a later successful exchange brings
  it to four entries and leaves the placeholder as well, so the title is never
  rewritten.
\<close>

theorem title_rewrite_counterexample:
  "map_option (map role \<circ> messages) (store (on_chat_message timeout_env ''u1'' hello no_state) ''c1'')
     = Some [User, Assistant]
   \<and> map_option title (store (on_chat_message timeout_env ''u1'' hello no_state) ''c1'')
     = Some ''New Chat''
   \<and> map_option (map role \<circ> messages)
       (store (on_chat_message demo_env ''u1'' follow_up
                (on_chat_message timeout_env ''u1'' hello no_state)) ''c1'')
     = Some [User, Assistant, User, Assistant]
   \<and> map_option title
       (store (on_chat_message demo_env ''u1'' follow_up
                (on_chat_message timeout_env ''u1'' hello no_state)) ''c1'')
     = Some ''New Chat''"
  by (simp add: handler_defs demo_defs Let_def)

text \<open>
  C4, amended. On a successful exchange (the upstream call returns a reply and the
  save is not rejected) with a non-blank text on a conversation that has no entry yet
  and still has the placeholder title, the stored conversation has exactly a user and
  a generated entry and its title is the trimmed text, kept whole when at most 50
  characters long and otherwise cut to its first 47 characters followed by "...".
  On a conversation that already has an entry, or whose title is no longer the
  placeholder, no run of the handler changes the stored title, whatever the upstream
  call and the saves do.
\<close>

theorem title_rewrite:
  assumes "\<not> empty_message d" and "resolve_chat e uid (chatId d) s = (s1, Resolved c)"
  shows "(\<forall>r reply rest t.
            upstream e = AxiosResolves r \<and> choices r = reply # rest \<and> success_save e = Saved
            \<and> message_text d = Some t \<and> trim t \<noteq> []
            \<and> messages c = [] \<and> title c = ''New Chat'' \<longrightarrow>
            (\<exists>c'. store (on_chat_message e uid d s) (chat_id c) = Some c'
                \<and> map role (messages c') = [User, Assistant]
                \<and> title c' = (if length (trim t) \<le> 50 then trim t
                               else take 47 (trim t) @ ''...'')))
       \<and> (messages c \<noteq> [] \<or> title c \<noteq> ''New Chat'' \<longrightarrow>
            store (on_chat_message e uid d s) = store s1
          \<or> (\<exists>c'. store (on_chat_message e uid d s) = (store s1)(chat_id c \<mapsto> c')
                \<and> title c' = title c))"
proof -
  have st: "store (on_chat_message e uid d s) = store (fst (exchange e d c s1))"
    using assms
    by (cases "exchange e d c s1") (simp add: on_chat_message_resolved split: option.splits)
  have first: "\<forall>r reply rest t.
            upstream e = AxiosResolves r \<and> choices r = reply # rest \<and> success_save e = Saved
            \<and> message_text d = Some t \<and> trim t \<noteq> []
            \<and> messages c = [] \<and> title c = ''New Chat'' \<longrightarrow>
            (\<exists>c'. store (on_chat_message e uid d s) (chat_id c) = Some c'
                \<and> map role (messages c') = [User, Assistant]
                \<and> title c' = (if length (trim t) \<le> 50 then trim t
                               else take 47 (trim t) @ ''...''))"
  proof (intro allI impI, elim conjE)
    fix r reply rest t
    assume h: "upstream e = AxiosResolves r" "choices r = reply # rest" "success_save e = Saved"
      "message_text d = Some t" "messages c = []" "title c = ''New Chat''"
    from exchange_first_success [OF h, of s1]
    obtain c' where "store (fst (exchange e d c s1)) (chat_id c) = Some c'"
      "map role (messages c') = [User, Assistant]" "title c' = make_title (trim t)"
      by (elim conjE exE)
    then show "\<exists>c'. store (on_chat_message e uid d s) (chat_id c) = Some c'
                \<and> map role (messages c') = [User, Assistant]
                \<and> title c' = (if length (trim t) \<le> 50 then trim t
                               else take 47 (trim t) @ ''...'')"
      unfolding st by (auto simp: make_title_def)
  qed
  have later: "messages c \<noteq> [] \<or> title c \<noteq> ''New Chat'' \<longrightarrow>
            store (on_chat_message e uid d s) = store s1
          \<or> (\<exists>c'. store (on_chat_message e uid d s) = (store s1)(chat_id c \<mapsto> c')
                \<and> title c' = title c)"
    unfolding st using exchange_keeps_title [of c e d s1] by blast
  from first later show ?thesis by blast
qed

theorem title_rewrite_witness:
  "\<not> empty_message sixty
   \<and> resolve_chat demo_env ''u1'' (chatId sixty) no_state
       = ((call (ChatSave ''c1'') no_state)
            \<lparr> store := (store no_state)(''c1'' \<mapsto> (new_chat ''c1'' ''u1'' 10)\<lparr> messages_modified := False \<rparr>) \<rparr>,
          Resolved ((new_chat ''c1'' ''u1'' 10)\<lparr> messages_modified := False \<rparr>))
   \<and> length (trim ''Please summarise the attached quarterly report in five lines'') = 60
   \<and> map_option title (store (on_chat_message demo_env ''u1'' sixty no_state) ''c1'')
       = Some ''Please summarise the attached quarterly report ...''
   \<and> \<not> empty_message follow_up
   \<and> resolve_chat demo_env ''u1'' (chatId follow_up) (on_chat_message demo_env ''u1'' hello no_state)
       = (call (ChatFindOne ''c1'' ''u1'') (on_chat_message demo_env ''u1'' hello no_state),
          Resolved hello_chat)
   \<and> messages hello_chat \<noteq> []
   \<and> map_option title
        (store (on_chat_message demo_env ''u1'' follow_up
                  (on_chat_message demo_env ''u1'' hello no_state)) ''c1'')
       = Some ''Hello''"
proof -
  let ?c = "(new_chat ''c1'' ''u1'' 10)\<lparr> messages_modified := False \<rparr>"
  let ?S = "on_chat_message demo_env ''u1'' hello no_state"
  have h1: "\<not> empty_message sixty" and h1': "\<not> empty_message follow_up"
    by (simp_all add: empty_message_def sixty_def follow_up_def trim_def js_whitespace_def)
  have h2: "resolve_chat demo_env ''u1'' (chatId sixty) no_state
       = ((call (ChatSave ''c1'') no_state)
            \<lparr> store := (store no_state)(''c1'' \<mapsto> ?c) \<rparr>, Resolved ?c)"
    by (simp add: sixty_def resolve_default_demo demo_env_def)
  have h2': "resolve_chat demo_env ''u1'' (chatId follow_up) ?S
       = (call (ChatFindOne ''c1'' ''u1'') ?S, Resolved hello_chat)"
  proof -
    have "\<not> findOne_throws demo_env" by (simp add: demo_env_def)
    moreover have "userId hello_chat = ''u1''" by (simp add: hello_chat_def)
    ultimately show ?thesis
      by (simp add: follow_up_def resolve_existing first_run_store)
  qed
  have len: "length (trim ''Please summarise the attached quarterly report in five lines'') = 60"
    by (simp add: trim_def js_whitespace_def)
  have e: "upstream demo_env = AxiosResolves \<lparr> choices = [''Hi there''],
                                   data_model = Some ''deepseek/deepseek-r1'',
                                   usage_total_tokens = Some 42 \<rparr>"
    "success_save demo_env = Saved"
    by (simp_all add: demo_env_def)
  have c: "chat_id ?c = ''c1''" "messages ?c = []" "title ?c = ''New Chat''"
    by (simp_all add: new_chat_def)
  have m: "message_text sixty = Some ''Please summarise the attached quarterly report in five lines''"
    by (simp add: sixty_def)
  have tr: "trim ''Please summarise the attached quarterly report in five lines''
              = ''Please summarise the attached quarterly report in five lines''"
    by (simp add: trim_def js_whitespace_def)
  from title_rewrite [OF h1 h2] e c m tr
  have "\<exists>c'. store (on_chat_message demo_env ''u1'' sixty no_state) ''c1'' = Some c'
          \<and> title c' = ''Please summarise the attached quarterly report ...''"
    by (auto simp: tr)
  then have first: "map_option title (store (on_chat_message demo_env ''u1'' sixty no_state) ''c1'')
       = Some ''Please summarise the attached quarterly report ...''"
    by auto
  have hc: "messages hello_chat \<noteq> []" "chat_id hello_chat = ''c1''" "title hello_chat = ''Hello''"
    by (simp_all add: hello_chat_def)
  have s1: "store (call (ChatFindOne ''c1'' ''u1'') ?S) ''c1'' = Some hello_chat"
    by (simp add: first_run_store)
  from title_rewrite [OF h1' h2'] hc(1)
  have "store (on_chat_message demo_env ''u1'' follow_up ?S) = store (call (ChatFindOne ''c1'' ''u1'') ?S)
      \<or> (\<exists>c'. store (on_chat_message demo_env ''u1'' follow_up ?S)
                 = (store (call (ChatFindOne ''c1'' ''u1'') ?S))(chat_id hello_chat \<mapsto> c')
              \<and> title c' = title hello_chat)"
    by blast
  then have later: "map_option title (store (on_chat_message demo_env ''u1'' follow_up ?S) ''c1'')
       = Some ''Hello''"
    using s1 hc by auto
  from h1 h2 len first h1' h2' hc(1) later show ?thesis by blast
qed

subsection \<open>The statistics of a successful exchange\<close>

text \<open>
  On the success path the stored conversation gains the user entry and the generated
  entry; its entry count is the list length and its last activity the time of
  settlement, but its token total is the sum over the entries it had before: the usage
  of the reply does not enter it. The summary of the terminal event is read from the
  stored document.
\<close>

lemma update_title_Some:
  "update_title (Some t) c =
     Some (if length (messages c) = 2 \<and> title c = ''New Chat''
           then c\<lparr> title := make_title (trim t) \<rparr> else c)"
  by (simp add: update_title_def)

lemma exchange_success_statistics:
  assumes "upstream e = AxiosResolves r" and "choices r = reply # rest"
    and "success_save e = Saved" and "message_text d = Some t"
  shows "\<exists>c'. store (fst (exchange e d c s)) (chat_id c) = Some c'
           \<and> messages c' = messages c @ [cast_message (userMessage (now_received e) d),
                                          cast_message (aiMessage (now_settled e) reply r)]
           \<and> messageCount (chat_statistics c') = length (messages c')
           \<and> totalTokens (chat_statistics c')
               = foldl (\<lambda>t msg. t + total (tokens (metadata msg))) 0 (messages c)
           \<and> lastActivity (chat_statistics c') = now_settled e
           \<and> last (trace (fst (exchange e d c s)))
               = Emit (AiResponse (chat_id c) (aiMessage (now_settled e) reply r) (summary_of c') None)"
proof -
  let ?c1 = "push_message c (userMessage (now_received e) d)"
  let ?cnt = "count_success (now_settled e) r (push_message ?c1 (aiMessage (now_settled e) reply r))"
  let ?s2 = "emit (AiTyping (chatId d) True)
               (emit (MessageReceived (chatId d) (userMessage (now_received e) d)) s)"
  define c2 where "c2 = (if length (messages ?cnt) = 2 \<and> title ?cnt = ''New Chat''
                        then ?cnt\<lparr> title := make_title (trim t) \<rparr> else ?cnt)"
  have u: "update_title (message_text d) ?cnt = Some c2"
    unfolding c2_def assms(4) by (rule update_title_Some)
  have same: "messages c2 = messages ?cnt" "chat_id c2 = chat_id ?cnt" "messages_modified c2"
    by (simp_all add: c2_def count_success_def push_message_def)
  let ?D = "(pre_save (now_settled e) c2)\<lparr> messages_modified := False \<rparr>"
  note a = ai_success_completes [OF assms(1) assms(2) u assms(3), of ?s2]
  have id: "chat_id c2 = chat_id c"
    using same by (simp add: count_success_def push_message_def)
  have ms: "messages c2 = messages c @ [cast_message (userMessage (now_received e) d),
                                        cast_message (aiMessage (now_settled e) reply r)]"
    using same by (simp add: count_success_def push_message_def)
  have st: "store (fst (exchange e d c s)) (chat_id c) = Some ?D"
    and ev: "last (trace (fst (exchange e d c s)))
               = Emit (AiResponse (chat_id c) (aiMessage (now_settled e) reply r) (summary_of ?D) None)"
    unfolding exchange_unfold a by (simp_all add: id)
  have "messages ?D = messages c @ [cast_message (userMessage (now_received e) d),
                                    cast_message (aiMessage (now_settled e) reply r)]"
    by (simp add: saved_fields ms)
  moreover have "messageCount (chat_statistics ?D) = length (messages ?D)"
    and "lastActivity (chat_statistics ?D) = now_settled e"
    using same(3) by (simp_all add: pre_save_def)
  moreover have "totalTokens (chat_statistics ?D)
               = foldl (\<lambda>t msg. t + total (tokens (metadata msg))) 0 (messages c)"
    using same(3) by (simp add: pre_save_def ms cast_message_def cast_metadata_def)
  ultimately show ?thesis using st ev by blast
qed

text \<open>
  C2, at a failing input. A new conversation receives "Hello" and the upstream call
  returns a reply with a usage of 42 tokens in total. The handler adds the 42 to the
  token count in memory, but the save runs the pre-save hook, which replaces the count
  by the sum of \<open>metadata.tokens.total\<close> over the entries, and the handler stores the
  usage under \<open>metadata.usage\<close>: the stored conversation has two entries, an entry
  count of two and a token total of 0, and the summary of the terminal event, read
  after the save, carries 0 as well.
\<close>

theorem token_total_not_accumulated:
  "upstream demo_env = AxiosResolves \<lparr> choices = [''Hi there''],
                                        data_model = Some ''deepseek/deepseek-r1'',
                                        usage_total_tokens = Some 42 \<rparr>
   \<and> map_option (length \<circ> messages) (store (on_chat_message demo_env ''u1'' hello no_state) ''c1'')
     = Some 2
   \<and> map_option chat_statistics (store (on_chat_message demo_env ''u1'' hello no_state) ''c1'')
     = Some \<lparr> messageCount = 2, totalTokens = 0, lastActivity = 20 \<rparr>
   \<and> last (trace (on_chat_message demo_env ''u1'' hello no_state))
     = Emit (AiResponse ''c1''
               \<lparr> lit_role = Assistant, lit_content = ''Hi there'', lit_attachments = [],
                 lit_timestamp = 20,
                 lit_metadata = Some \<lparr> lit_model = Some ''deepseek/deepseek-r1'', lit_usage = Some 42,
                                       lit_error = None, lit_errorType = None \<rparr> \<rparr>
               \<lparr> summary_id = ''c1'', summary_title = ''Hello'', summary_messageCount = 2,
                 summary_totalTokens = 0 \<rparr>
               None)"
  by (simp add: handler_defs demo_defs Let_def)

subsection \<open>Identity verification\<close>

text \<open>A connection attempt without a token, or with a token that decodes to an
  unknown user, is refused by the middleware: the connection handler does not run and
  the registry is the one before.\<close>

lemma missing_token_rejected:
  assumes "\<not> truthy (auth_token (socket_handshake sock))"
    and "authorization (socket_handshake sock) = None
         \<or> authorization (socket_handshake sock) = Some ''Bearer ''"
  shows "connect a now sock srv
           = (sock\<lparr> disconnected := True \<rparr>, srv, Some ''Authentication token required'')"
  using assms
  by (auto simp: connect_def authenticateSocket_def socket_token_def)

lemma unknown_user_rejected:
  assumes "truthy (socket_token sock)"
    and "jwt_verify a (the (socket_token sock)) = Decoded uid" and "findById a uid = Some None"
  shows "connect a now sock srv = (sock\<lparr> disconnected := True \<rparr>, srv, Some ''User not found'')"
  using assms by (simp add: connect_def authenticateSocket_def)

text \<open>
  C8, at a failing input. The token of an existing account that has been deactivated
  is answered by the HTTP middleware \<open>authenticateToken\<close> with 401
  "Account is deactivated", but \<open>authenticateSocket\<close> never reads \<open>isActive\<close>: it
  attaches the deactivated user to the socket and lets the connection through, so the
  connection handler enters the user in the registry and sends \<open>connected\<close>.
\<close>

theorem deactivated_user_connects:
  "\<not> isActive mallory
   \<and> authenticateToken demo_auth (Some ''Bearer tok-mallory'')
       = Status 401 ''Access denied'' ''Account is deactivated''
   \<and> authenticateSocket demo_auth (knock (Some ''tok-mallory''))
       = ((knock (Some ''tok-mallory''))\<lparr> socket_user := Some mallory \<rparr>, None)
   \<and> getUserConnection (fst (snd (connect demo_auth 30 (knock (Some ''tok-mallory'')) no_server))) ''u3''
       = Some \<lparr> socketId = ''s9'', connection_user = mallory, connectedAt = 30 \<rparr>
   \<and> outbox (fst (snd (connect demo_auth 30 (knock (Some ''tok-mallory'')) no_server)))
       = [(''s9'', Connected ''u3'' ''mallory'' ''mallory@example.org'')]"
  by (simp add: authenticateToken_def header_token_def authenticateSocket_def socket_token_def
        connect_def handleSocketConnection_def getUserConnection_def demo_auth_def mallory_def
        knock_def no_server_def)

end
